theory Spec2Isabelle
  imports Complex_Main "HOL-Library.AList"
begin

section \<open>JavaScript numbers and values\<close>

text \<open>
  The billing code computes with JavaScript numbers. They are modelled as exact rationals
  together with the three special values that decide branches of the code: \<open>NaN\<close> and the
  two infinities. Rounding to the nearest double and the sign of zero are not modelled.
\<close>

datatype jsnum = NaN | Fin rat | PosInf | NegInf

fun js_neg :: "jsnum \<Rightarrow> jsnum" where
  "js_neg NaN = NaN"
| "js_neg (Fin a) = Fin (- a)"
| "js_neg PosInf = NegInf"
| "js_neg NegInf = PosInf"

fun js_add :: "jsnum \<Rightarrow> jsnum \<Rightarrow> jsnum" where
  "js_add NaN _ = NaN"
| "js_add _ NaN = NaN"
| "js_add (Fin a) (Fin b) = Fin (a + b)"
| "js_add PosInf NegInf = NaN"
| "js_add NegInf PosInf = NaN"
| "js_add PosInf _ = PosInf"
| "js_add _ PosInf = PosInf"
| "js_add NegInf _ = NegInf"
| "js_add _ NegInf = NegInf"

definition js_sub :: "jsnum \<Rightarrow> jsnum \<Rightarrow> jsnum" where
  "js_sub a b = js_add a (js_neg b)"

fun js_lt :: "jsnum \<Rightarrow> jsnum \<Rightarrow> bool" where
  "js_lt NaN _ = False"
| "js_lt _ NaN = False"
| "js_lt (Fin a) (Fin b) = (a < b)"
| "js_lt _ NegInf = False"
| "js_lt NegInf _ = True"
| "js_lt PosInf _ = False"
| "js_lt _ PosInf = True"

fun js_le :: "jsnum \<Rightarrow> jsnum \<Rightarrow> bool" where
  "js_le NaN _ = False"
| "js_le _ NaN = False"
| "js_le (Fin a) (Fin b) = (a \<le> b)"
| "js_le NegInf _ = True"
| "js_le _ NegInf = False"
| "js_le _ PosInf = True"
| "js_le PosInf _ = False"

definition js_gt :: "jsnum \<Rightarrow> jsnum \<Rightarrow> bool" where
  "js_gt a b = js_lt b a"

definition js_ge :: "jsnum \<Rightarrow> jsnum \<Rightarrow> bool" where
  "js_ge a b = js_le b a"

fun js_mul :: "jsnum \<Rightarrow> jsnum \<Rightarrow> jsnum" where
  "js_mul NaN _ = NaN"
| "js_mul _ NaN = NaN"
| "js_mul (Fin a) (Fin b) = Fin (a * b)"
| "js_mul (Fin a) b = (if a = 0 then NaN else if 0 < a then b else js_neg b)"
| "js_mul a (Fin b) = (if b = 0 then NaN else if 0 < b then a else js_neg a)"
| "js_mul PosInf b = b"
| "js_mul NegInf b = js_neg b"

text \<open>\<^verbatim>\<open>Math.max(a, b)\<close>: \<open>NaN\<close> as soon as one argument is \<open>NaN\<close>.\<close>

fun Math_max :: "jsnum \<Rightarrow> jsnum \<Rightarrow> jsnum" where
  "Math_max NaN _ = NaN"
| "Math_max _ NaN = NaN"
| "Math_max a b = (if js_lt a b then b else a)"

text \<open>\<^verbatim>\<open>Math.round(x)\<close>: the nearest integer, a tie going up.\<close>

fun Math_round :: "jsnum \<Rightarrow> jsnum" where
  "Math_round (Fin a) = Fin (of_int \<lfloor>a + 1 / 2\<rfloor>)"
| "Math_round x = x"

text \<open>Truthiness of a number: every number except \<open>NaN\<close> and zero.\<close>

fun num_truthy :: "jsnum \<Rightarrow> bool" where
  "num_truthy NaN = False"
| "num_truthy (Fin a) = (a \<noteq> 0)"
| "num_truthy _ = True"

text \<open>
  A value as a metadata property can hold it. An object or array is represented by the
  string that \<^verbatim>\<open>String(v)\<close> makes of it, which is all the code reads.
\<close>

datatype jsval = JUndefined | JNull | JBool bool | JNum jsnum | JStr string | JObj string

fun truthy :: "jsval \<Rightarrow> bool" where
  "truthy JUndefined = False"
| "truthy JNull = False"
| "truthy (JBool b) = b"
| "truthy (JNum n) = num_truthy n"
| "truthy (JStr s) = (s \<noteq> [])"
| "truthy (JObj _) = True"

subsection \<open>\<^verbatim>\<open>Number.parseFloat\<close>\<close>

text \<open>
  \<^verbatim>\<open>parseFloat\<close> skips leading white space and reads the longest prefix that is a decimal
  literal: an optional sign, then \<^verbatim>\<open>Infinity\<close> or digits with an optional fraction and an
  optional exponent. No such prefix gives \<open>NaN\<close>. A \<open>char\<close> is a byte, so the white space
  is the ASCII part of what JavaScript skips; the literal is read as an exact rational.
\<close>

definition isStrWhiteSpaceChar :: "char \<Rightarrow> bool" where
  "isStrWhiteSpaceChar c = ((of_char c :: nat) \<in> {9, 10, 11, 12, 13, 32})"

definition isDecimalDigit :: "char \<Rightarrow> bool" where
  "isDecimalDigit c = (48 \<le> (of_char c :: nat) \<and> (of_char c :: nat) \<le> 57)"

definition digitsValue :: "string \<Rightarrow> nat" where
  "digitsValue ds = foldl (\<lambda>a c. 10 * a + ((of_char c :: nat) - 48)) 0 ds"

definition scale10 :: "rat \<Rightarrow> int \<Rightarrow> rat" where
  "scale10 m e = (if 0 \<le> e then m * 10 ^ nat e else m / 10 ^ nat (- e))"

text \<open>The value of an exponent part at the head of the string, 0 when there is none.\<close>

definition exponentPart :: "string \<Rightarrow> int" where
  "exponentPart s =
     (case s of
        [] \<Rightarrow> 0
      | e # r \<Rightarrow>
          if e = CHR ''e'' \<or> e = CHR ''E'' then
            (case r of
               [] \<Rightarrow> 0
             | g # r' \<Rightarrow>
                 if g = CHR ''-'' then
                   (if takeWhile isDecimalDigit r' = [] then 0
                    else - int (digitsValue (takeWhile isDecimalDigit r')))
                 else if g = CHR ''+'' then
                   (if takeWhile isDecimalDigit r' = [] then 0
                    else int (digitsValue (takeWhile isDecimalDigit r')))
                 else
                   (if takeWhile isDecimalDigit r = [] then 0
                    else int (digitsValue (takeWhile isDecimalDigit r))))
          else 0)"

definition unsignedDecimal :: "string \<Rightarrow> jsnum" where
  "unsignedDecimal s =
     (if take 8 s = ''Infinity'' then PosInf
      else
        let ip = takeWhile isDecimalDigit s;
            r1 = dropWhile isDecimalDigit s;
            fp = (case r1 of [] \<Rightarrow> [] | d # t \<Rightarrow>
                    if d = CHR ''.'' then takeWhile isDecimalDigit t else []);
            r2 = (case r1 of [] \<Rightarrow> [] | d # t \<Rightarrow>
                    if d = CHR ''.'' then dropWhile isDecimalDigit t else r1)
        in if ip = [] \<and> fp = [] then NaN
           else Fin (scale10 (of_nat (digitsValue (ip @ fp)) / 10 ^ length fp)
                       (exponentPart r2)))"

definition parseFloat :: "string \<Rightarrow> jsnum" where
  "parseFloat s =
     (case dropWhile isStrWhiteSpaceChar s of
        [] \<Rightarrow> NaN
      | c # r \<Rightarrow>
          if c = CHR ''-'' then js_neg (unsignedDecimal r)
          else if c = CHR ''+'' then unsignedDecimal r
          else unsignedDecimal (c # r))"

text \<open>
  \<^verbatim>\<open>Number.parseFloat(String(v))\<close>. A number prints to a string that reads back as the same
  number, so no printer is needed; \<^verbatim>\<open>undefined\<close>, \<^verbatim>\<open>null\<close>, \<^verbatim>\<open>true\<close> and \<^verbatim>\<open>false\<close> print
  to words that hold no decimal literal.
\<close>

fun parseFloatOfString :: "jsval \<Rightarrow> jsnum" where
  "parseFloatOfString (JNum n) = n"
| "parseFloatOfString (JStr s) = parseFloat s"
| "parseFloatOfString (JObj s) = parseFloat s"
| "parseFloatOfString _ = NaN"

section \<open>Plan pricing\<close>

datatype error = SyntaxError | TypeError | StripeError | LookupError

text \<open>
  The metadata column of a subscription: absent (\<^verbatim>\<open>null\<close>, falsy), an object, given by its
  \<^verbatim>\<open>perSeatPrice\<close> property (\<open>JUndefined\<close> when the object has none), or a non-empty string,
  given by what \<^verbatim>\<open>JSON.parse\<close> makes of it.
\<close>

datatype jsonOutcome = JsonSyntaxError | JsonNull | JsonPrimitive | JsonObject jsval

datatype metadataValue = MetaAbsent | MetaObject jsval | MetaText jsonOutcome

record subscriptionRow =
  sub_id :: string
  sub_plan :: string
  sub_referenceId :: string
  sub_status :: string
  sub_seats :: "int option"
  sub_metadata :: metadataValue
  sub_stripeSubscriptionId :: "string option"

text \<open>
  The tier limits are read through accessors of another module, which is not modelled;
  they are parameters, one field for each accessor the billing code calls.
\<close>

record tierLimits =
  getFreeTierLimit :: jsnum
  getProTierLimit :: jsnum
  getTeamTierLimitPerSeat :: jsnum
  getEnterpriseTierLimitPerSeat :: jsnum

text \<open>
  \<^verbatim>\<open>typeof metadata === 'string' ? JSON.parse(metadata) : metadata\<close> followed by the read of
  \<^verbatim>\<open>.perSeatPrice\<close>: a syntax error of the parser and the property read on \<^verbatim>\<open>null\<close> throw.
\<close>

fun metadataPerSeatPrice :: "metadataValue \<Rightarrow> error + jsval" where
  "metadataPerSeatPrice MetaAbsent = Inr JUndefined"
| "metadataPerSeatPrice (MetaObject v) = Inr v"
| "metadataPerSeatPrice (MetaText JsonSyntaxError) = Inl SyntaxError"
| "metadataPerSeatPrice (MetaText JsonNull) = Inl TypeError"
| "metadataPerSeatPrice (MetaText JsonPrimitive) = Inr JUndefined"
| "metadataPerSeatPrice (MetaText (JsonObject v)) = Inr v"

text \<open>
  \<^verbatim>\<open>getPlanPricing(plan, subscription)\<close>; the result is the \<^verbatim>\<open>basePrice\<close> of the object the
  source returns.
\<close>

definition getPlanPricing :: "tierLimits \<Rightarrow> string \<Rightarrow> subscriptionRow option \<Rightarrow> error + jsnum" where
  "getPlanPricing cfg plan subscription =
     (if plan = ''free'' then Inr (Fin 0)
      else if plan = ''pro'' then Inr (getProTierLimit cfg)
      else if plan = ''team'' then Inr (getTeamTierLimitPerSeat cfg)
      else if plan = ''enterprise'' then
        (case subscription of
           None \<Rightarrow> Inr (getEnterpriseTierLimitPerSeat cfg)
         | Some sub \<Rightarrow>
             if sub_metadata sub = MetaAbsent then Inr (getEnterpriseTierLimitPerSeat cfg)
             else
               (case metadataPerSeatPrice (sub_metadata sub) of
                  Inl e \<Rightarrow> Inl e
                | Inr raw \<Rightarrow>
                    let perSeatPrice =
                          (if truthy raw then Some (parseFloatOfString raw) else None)
                    in (case perSeatPrice of
                          None \<Rightarrow> Inr (getEnterpriseTierLimitPerSeat cfg)
                        | Some p \<Rightarrow>
                            if num_truthy p \<and> js_gt p (Fin 0) \<and> p \<noteq> NaN then Inr p
                            else Inr (getEnterpriseTierLimitPerSeat cfg))))
      else Inr (Fin 0))"

section \<open>The persistent store\<close>

text \<open>
  The tables the billing code reads and writes, each a list of rows in the order the
  database returns them. A decimal column is the string the driver hands over, \<open>None\<close>
  for \<^verbatim>\<open>NULL\<close>. An empty plan stands for a \<^verbatim>\<open>null\<close> plan as well: the code treats both alike
  everywhere. Database calls themselves do not fail in this model.
\<close>

record userRow =
  user_id :: string
  user_name :: string
  user_email :: "string option"
  user_stripeCustomerId :: "string option"

record memberRow =
  member_userId :: string
  member_organizationId :: string
  member_role :: string

record userStatsRow =
  stats_userId :: string
  currentPeriodCost :: "string option"
  lastPeriodCost :: "string option"
  billingBlocked :: bool

record store =
  userTable :: "userRow list"
  organizationTable :: "string list"
  memberTable :: "memberRow list"
  subscriptionTable :: "subscriptionRow list"
  userStatsTable :: "userStatsRow list"

text \<open>\<^verbatim>\<open>select userId from member where organizationId = ?\<close>\<close>

definition membersRows :: "string \<Rightarrow> store \<Rightarrow> string list" where
  "membersRows organizationId db =
     map member_userId
       (filter (\<lambda>m. member_organizationId m = organizationId) (memberTable db))"

text \<open>\<^verbatim>\<open>select ... from userStats where userId = ? limit 1\<close>\<close>

definition selectUserStats :: "string \<Rightarrow> store \<Rightarrow> userStatsRow option" where
  "selectUserStats userId db = find (\<lambda>r. stats_userId r = userId) (userStatsTable db)"

text \<open>\<^verbatim>\<open>update userStats set ... where userId = ?\<close>\<close>

definition updateUserStats ::
  "string \<Rightarrow> (userStatsRow \<Rightarrow> userStatsRow) \<Rightarrow> store \<Rightarrow> store" where
  "updateUserStats userId f db =
     db\<lparr>userStatsTable :=
          map (\<lambda>r. if stats_userId r = userId then f r else r) (userStatsTable db)\<rparr>"

text \<open>\<^verbatim>\<open>select * from subscription where stripeSubscriptionId = ? limit 1\<close>\<close>

definition selectSubscriptionByStripeId :: "string \<Rightarrow> store \<Rightarrow> subscriptionRow option" where
  "selectSubscriptionByStripeId stripeSubscriptionId db =
     find (\<lambda>s. sub_stripeSubscriptionId s = Some stripeSubscriptionId) (subscriptionTable db)"

section \<open>Resetting the usage counters\<close>

text \<open>
  The block that \<^verbatim>\<open>resetUsageForSubscription\<close> runs for one subject: read the current
  period cost, and when a row exists write it to \<^verbatim>\<open>lastPeriodCost\<close> and zero the counter.
  \<^verbatim>\<open>current || '0'\<close> replaces \<^verbatim>\<open>NULL\<close> and the empty string.
\<close>

definition costOrZero :: "string option \<Rightarrow> string" where
  "costOrZero c = (case c of None \<Rightarrow> ''0'' | Some s \<Rightarrow> if s = [] then ''0'' else s)"

definition resetUsageOfUser :: "string \<Rightarrow> store \<Rightarrow> store" where
  "resetUsageOfUser userId db =
     (case selectUserStats userId db of
        None \<Rightarrow> db
      | Some row \<Rightarrow>
          let current = costOrZero (currentPeriodCost row)
          in updateUserStats userId
               (\<lambda>r. r\<lparr>lastPeriodCost := Some current, currentPeriodCost := Some ''0''\<rparr>) db)"

definition isOrgPlan :: "string \<Rightarrow> bool" where
  "isOrgPlan plan = (plan = ''team'' \<or> plan = ''enterprise'')"

definition resetUsageForSubscription :: "string \<Rightarrow> string \<Rightarrow> store \<Rightarrow> store" where
  "resetUsageForSubscription plan referenceId db =
     (if isOrgPlan plan then
        foldl (\<lambda>d m. resetUsageOfUser m d) db (membersRows referenceId db)
      else resetUsageOfUser referenceId db)"

section \<open>Invoice events\<close>

text \<open>The fields of a Stripe invoice that the webhook handlers read.\<close>

record invoiceEvent =
  inv_id :: string
  inv_subscription :: "string option"
  inv_billing_reason :: string
  inv_customer :: string
  inv_metadata :: "(string \<times> string) list"
  inv_attempt_count :: "int option"
  inv_firstLinePeriodEnd :: "int option"

text \<open>\<^verbatim>\<open>String(invoice.subscription || '')\<close>\<close>

definition invoiceSubscriptionId :: "invoiceEvent \<Rightarrow> string" where
  "invoiceSubscriptionId invoice = (case inv_subscription invoice of None \<Rightarrow> [] | Some s \<Rightarrow> s)"

text \<open>The subjects that share a subscription: the members of the organization, or the user.\<close>

definition subjectIds :: "subscriptionRow \<Rightarrow> store \<Rightarrow> string list" where
  "subjectIds sub db =
     (if isOrgPlan (sub_plan sub) then membersRows (sub_referenceId sub) db
      else [sub_referenceId sub])"

definition setBillingBlocked :: "bool \<Rightarrow> string \<Rightarrow> store \<Rightarrow> store" where
  "setBillingBlocked b userId db = updateUserStats userId (\<lambda>r. r\<lparr>billingBlocked := b\<rparr>) db"

text \<open>
  \<^verbatim>\<open>row.length > 0 && row[0].blocked\<close> for one user, as both branches of the
  payment-succeeded handler test it.
\<close>

definition userWasBlocked :: "string \<Rightarrow> store \<Rightarrow> bool" where
  "userWasBlocked userId db =
     (case selectUserStats userId db of None \<Rightarrow> False | Some row \<Rightarrow> billingBlocked row)"

text \<open>
  \<^verbatim>\<open>handleInvoicePaymentSucceeded\<close>: find the subscription of the invoice, note whether a
  subject is blocked (the member loop stops at the first blocked one), unblock every
  subject, and reset the usage when a subject was blocked.
\<close>

definition handleInvoicePaymentSucceeded :: "invoiceEvent \<Rightarrow> store \<Rightarrow> store" where
  "handleInvoicePaymentSucceeded invoice db =
     (if invoiceSubscriptionId invoice = [] then db
      else
        (case selectSubscriptionByStripeId (invoiceSubscriptionId invoice) db of
           None \<Rightarrow> db
         | Some sub \<Rightarrow>
             let wasBlocked =
                   (if isOrgPlan (sub_plan sub) then
                      list_ex (\<lambda>m. userWasBlocked m db) (membersRows (sub_referenceId sub) db)
                    else userWasBlocked (sub_referenceId sub) db);
                 db1 =
                   (if isOrgPlan (sub_plan sub) then
                      foldl (\<lambda>d m. setBillingBlocked False m d) db
                        (membersRows (sub_referenceId sub) db)
                    else setBillingBlocked False (sub_referenceId sub) db)
             in if wasBlocked
                then resetUsageForSubscription (sub_plan sub) (sub_referenceId sub) db1
                else db1))"

text \<open>\<^verbatim>\<open>invoice.attempt_count || 1\<close>\<close>

definition attemptCount :: "invoiceEvent \<Rightarrow> int" where
  "attemptCount invoice =
     (case inv_attempt_count invoice of None \<Rightarrow> 1 | Some n \<Rightarrow> if n = 0 then 1 else n)"

text \<open>
  \<^verbatim>\<open>handleInvoicePaymentFailed\<close>: only an invoice tagged \<^verbatim>\<open>overage_billing\<close> is handled; from
  the first attempt on, every subject of the invoice's subscription is blocked.
\<close>

definition handleInvoicePaymentFailed :: "invoiceEvent \<Rightarrow> store \<Rightarrow> store" where
  "handleInvoicePaymentFailed invoice db =
     (if map_of (inv_metadata invoice) ''type'' \<noteq> Some ''overage_billing'' then db
      else if attemptCount invoice \<ge> 1 then
        (if invoiceSubscriptionId invoice \<noteq> [] then
           (case selectSubscriptionByStripeId (invoiceSubscriptionId invoice) db of
              None \<Rightarrow> db
            | Some sub \<Rightarrow>
                if isOrgPlan (sub_plan sub) then
                  foldl (\<lambda>d m. setBillingBlocked True m d) db
                    (membersRows (sub_referenceId sub) db)
                else setBillingBlocked True (sub_referenceId sub) db)
         else db)
      else db)"

section \<open>The environment of the billing code\<close>

text \<open>
  Clock and formatting functions of the JavaScript runtime, as parameters:
  \<^item> \<open>nowSeconds\<close> is \<^verbatim>\<open>Math.floor(Date.now() / 1000)\<close>;
  \<^item> \<open>isoMonth t\<close> is \<^verbatim>\<open>new Date(t * 1000).toISOString().slice(0, 7)\<close>;
  \<^item> \<open>monthStart p\<close> is \<^verbatim>\<open>Math.floor(new Date(`${p}-01`).getTime() / 1000)\<close>, \<open>None\<close> when the
    date is invalid and the result \<open>NaN\<close>;
  \<^item> \<open>numberToString\<close> and \<open>toFixed2\<close> print a number, \<open>stringifyMemberDetails\<close> is
    \<^verbatim>\<open>JSON.stringify\<close> on the member usage details.
\<close>

record memberUsageDetail =
  mud_userId :: string
  mud_name :: string
  mud_email :: "string option"
  mud_usage :: jsnum

record jsenv =
  nowSeconds :: int
  isoMonth :: "int \<Rightarrow> string"
  monthStart :: "string \<Rightarrow> int option"
  numberToString :: "jsnum \<Rightarrow> string"
  toFixed2 :: "jsnum \<Rightarrow> string"
  stringifyMemberDetails :: "memberUsageDetail list \<Rightarrow> string"

text \<open>
  Two functions the billing code calls live in other modules, which are not modelled: the
  lookup of the highest-priority subscription of a user and the usage data of a user.
  They are parameters; \<open>Inl\<close> is a thrown error.
\<close>

record usageData =
  currentUsage :: jsnum

record collaborators =
  getHighestPrioritySubscription :: "store \<Rightarrow> string \<Rightarrow> error + subscriptionRow option"
  getUserUsageData :: "store \<Rightarrow> string \<Rightarrow> error + usageData"

subsection \<open>The payment provider\<close>

text \<open>
  The remote state of the payment provider, as far as the billing code reads and writes
  it. Invoices are kept newest first, the order in which the provider lists them. An
  operation in \<open>st_failing\<close> throws. A new invoice carries the status \<open>st_statusOnCreate\<close>;
  finalizing makes it \<^verbatim>\<open>open\<close>, paying makes it \<^verbatim>\<open>paid\<close>. An invoice identifier is a counter.
\<close>

datatype stripeOp =
    RequireClient | InvoicesList | CustomersRetrieve | CustomersUpdate
  | InvoiceItemsCreate | InvoicesCreate | InvoicesFinalize | InvoicesPay

record stripeInvoice =
  si_id :: nat
  si_customer :: string
  si_created :: int
  si_status :: string
  si_description :: string
  si_metadata :: "(string \<times> string) list"

record stripeInvoiceItem =
  ii_customer :: string
  ii_subscription :: "string option"
  ii_amount :: jsnum
  ii_description :: string
  ii_metadata :: "(string \<times> string) list"

record stripe =
  st_invoices :: "stripeInvoice list"
  st_invoiceItems :: "stripeInvoiceItem list"
  st_customers :: "(string \<times> string option) list"
  st_idempotencyKeys :: "(string \<times> stripeInvoiceItem) list"
  st_failing :: "stripeOp list"
  st_statusOnCreate :: string

definition stripeAvailable :: "stripeOp \<Rightarrow> stripe \<Rightarrow> bool" where
  "stripeAvailable opn st = (opn \<notin> set (st_failing st))"

text \<open>\<^verbatim>\<open>invoices.list({ customer, created: { gte }, limit: 100 })\<close>\<close>

definition invoices_list :: "string \<Rightarrow> int \<Rightarrow> stripe \<Rightarrow> error + stripeInvoice list" where
  "invoices_list customer gte st =
     (if stripeAvailable InvoicesList st then
        Inr (take 100 (filter (\<lambda>i. si_customer i = customer \<and> gte \<le> si_created i)
                         (st_invoices st)))
      else Inl StripeError)"

text \<open>\<^verbatim>\<open>customers.retrieve(id)\<close>: the email of the customer; an unknown customer throws.\<close>

definition customers_retrieve :: "string \<Rightarrow> stripe \<Rightarrow> error + string option" where
  "customers_retrieve customer st =
     (if stripeAvailable CustomersRetrieve st then
        (case map_of (st_customers st) customer of
           None \<Rightarrow> Inl StripeError
         | Some email \<Rightarrow> Inr email)
      else Inl StripeError)"

definition customers_update :: "string \<Rightarrow> string \<Rightarrow> stripe \<Rightarrow> error + stripe" where
  "customers_update customer email st =
     (if stripeAvailable CustomersUpdate st then
        (case map_of (st_customers st) customer of
           None \<Rightarrow> Inl StripeError
         | Some _ \<Rightarrow> Inr (st\<lparr>st_customers := AList.update customer (Some email) (st_customers st)\<rparr>))
      else Inl StripeError)"

fun isFinite :: "jsnum \<Rightarrow> bool" where
  "isFinite (Fin _) = True"
| "isFinite _ = False"

text \<open>
  \<^verbatim>\<open>invoiceItems.create(params, { idempotencyKey })\<close>: an amount that is not a number is
  rejected; a key seen before replays the first request when the parameters agree and is
  an error when they differ.
\<close>

definition invoiceItems_create ::
  "stripeInvoiceItem \<Rightarrow> string option \<Rightarrow> stripe \<Rightarrow> error + stripe" where
  "invoiceItems_create item idempotencyKey st =
     (if \<not> stripeAvailable InvoiceItemsCreate st \<or> \<not> isFinite (ii_amount item) then Inl StripeError
      else
        (case idempotencyKey of
           None \<Rightarrow> Inr (st\<lparr>st_invoiceItems := item # st_invoiceItems st\<rparr>)
         | Some k \<Rightarrow>
             (case map_of (st_idempotencyKeys st) k of
                Some earlier \<Rightarrow> if earlier = item then Inr st else Inl StripeError
              | None \<Rightarrow>
                  Inr (st\<lparr>st_invoiceItems := item # st_invoiceItems st,
                          st_idempotencyKeys := (k, item) # st_idempotencyKeys st\<rparr>))))"

definition invoices_create ::
  "int \<Rightarrow> string \<Rightarrow> string \<Rightarrow> (string \<times> string) list \<Rightarrow> stripe \<Rightarrow>
     error + (stripeInvoice \<times> stripe)" where
  "invoices_create created customer description metadata st =
     (if stripeAvailable InvoicesCreate st then
        (let invoice = \<lparr>si_id = length (st_invoices st), si_customer = customer,
                         si_created = created, si_status = st_statusOnCreate st,
                         si_description = description, si_metadata = metadata\<rparr>
         in Inr (invoice, st\<lparr>st_invoices := invoice # st_invoices st\<rparr>))
      else Inl StripeError)"

definition setInvoiceStatus :: "nat \<Rightarrow> string \<Rightarrow> stripe \<Rightarrow> stripe" where
  "setInvoiceStatus i status st =
     st\<lparr>st_invoices :=
          map (\<lambda>v. if si_id v = i then v\<lparr>si_status := status\<rparr> else v) (st_invoices st)\<rparr>"

definition invoices_finalizeInvoice ::
  "stripeInvoice \<Rightarrow> stripe \<Rightarrow> error + (stripeInvoice \<times> stripe)" where
  "invoices_finalizeInvoice invoice st =
     (if stripeAvailable InvoicesFinalize st then
        Inr (invoice\<lparr>si_status := ''open''\<rparr>, setInvoiceStatus (si_id invoice) ''open'' st)
      else Inl StripeError)"

definition invoices_pay ::
  "stripeInvoice \<Rightarrow> stripe \<Rightarrow> error + (stripeInvoice \<times> stripe)" where
  "invoices_pay invoice st =
     (if stripeAvailable InvoicesPay st then
        Inr (invoice\<lparr>si_status := ''paid''\<rparr>, setInvoiceStatus (si_id invoice) ''paid'' st)
      else Inl StripeError)"

section \<open>Overage billing\<close>

record billingResult =
  success :: bool
  chargedAmount :: "jsnum option"
  invoiceId :: "nat option"
  errorText :: "string option"

definition billingSuccess :: "jsnum \<Rightarrow> nat option \<Rightarrow> billingResult" where
  "billingSuccess amount i =
     \<lparr>success = True, chargedAmount = Some amount, invoiceId = i, errorText = None\<rparr>"

definition billingFailure :: "string \<Rightarrow> billingResult" where
  "billingFailure msg =
     \<lparr>success = False, chargedAmount = None, invoiceId = None, errorText = Some msg\<rparr>"

fun errorMessage :: "error \<Rightarrow> string" where
  "errorMessage SyntaxError = ''SyntaxError''"
| "errorMessage TypeError = ''TypeError''"
| "errorMessage StripeError = ''StripeError''"
| "errorMessage LookupError = ''LookupError''"

text \<open>A string column is truthy when it is neither \<^verbatim>\<open>NULL\<close> nor empty.\<close>

definition truthyText :: "string option \<Rightarrow> bool" where
  "truthyText t = (case t of None \<Rightarrow> False | Some s \<Rightarrow> s \<noteq> [])"


text \<open>
  \<^verbatim>\<open>getStripeCustomerId\<close>: the customer of the user with this id, or else, for an
  organization, the customer of the first owner that the join of users and members gives.
\<close>

definition getStripeCustomerId :: "string \<Rightarrow> store \<Rightarrow> string option" where
  "getStripeCustomerId referenceId db =
     (let userRecord = find (\<lambda>u. user_id u = referenceId) (userTable db)
      in if (case userRecord of None \<Rightarrow> False | Some u \<Rightarrow> truthyText (user_stripeCustomerId u))
         then user_stripeCustomerId (the userRecord)
         else if referenceId \<in> set (organizationTable db) then
           (let ownerRecord =
                  find (\<lambda>u. \<exists>m \<in> set (memberTable db).
                              member_userId m = user_id u \<and>
                              member_organizationId m = referenceId \<and>
                              member_role m = ''owner'')
                    (userTable db)
            in (case ownerRecord of
                  None \<Rightarrow> None
                | Some u \<Rightarrow>
                    if truthyText (user_stripeCustomerId u) then user_stripeCustomerId u
                    else None))
         else None)"

text \<open>
  \<^verbatim>\<open>createOverageBillingInvoice\<close>. Every throw inside the \<^verbatim>\<open>try\<close> block ends in the failure
  result; what the provider has stored by then stays stored. A failed payment attempt is
  caught on its own and does not fail the call.
\<close>

definition existingOverageInvoice :: "string \<Rightarrow> stripeInvoice list \<Rightarrow> stripeInvoice option" where
  "existingOverageInvoice billingPeriod recentInvoices =
     find (\<lambda>invoice.
             map_of (si_metadata invoice) ''type'' = Some ''overage_billing'' \<and>
             map_of (si_metadata invoice) ''billingPeriod'' = Some billingPeriod \<and>
             si_status invoice \<noteq> ''void'')
       recentInvoices"

definition createOverageBillingInvoice ::
  "jsenv \<Rightarrow> string \<Rightarrow> jsnum \<Rightarrow> string \<Rightarrow> (string \<times> string) list \<Rightarrow> stripe \<Rightarrow>
     billingResult \<times> stripe" where
  "createOverageBillingInvoice env customerId overageAmount description metadata st =
     (if js_le overageAmount (Fin 0) then (billingSuccess (Fin 0) None, st)
      else if \<not> stripeAvailable RequireClient st then
        (billingFailure (errorMessage StripeError), st)
      else
        let billingPeriod =
              (if truthyText (map_of metadata ''billingPeriod'')
               then the (map_of metadata ''billingPeriod'')
               else isoMonth env (nowSeconds env))
        in
        (case monthStart env billingPeriod of
           None \<Rightarrow> (billingFailure (errorMessage StripeError), st)
         | Some periodStartTimestamp \<Rightarrow>
        (case invoices_list customerId periodStartTimestamp st of
           Inl e \<Rightarrow> (billingFailure (errorMessage e), st)
         | Inr recentInvoices \<Rightarrow>
        (case existingOverageInvoice billingPeriod recentInvoices of
           Some existing \<Rightarrow> (billingSuccess (Fin 0) (Some (si_id existing)), st)
         | None \<Rightarrow>
        (case customers_retrieve customerId st of
           Inl e \<Rightarrow> (billingFailure (errorMessage e), st)
         | Inr email \<Rightarrow>
        (case invoiceItems_create
                \<lparr>ii_customer = customerId, ii_subscription = None,
                 ii_amount = Math_round (js_mul overageAmount (Fin 100)),
                 ii_description = description,
                 ii_metadata = AList.update ''type'' ''overage_billing'' metadata\<rparr>
                None st of
           Inl e \<Rightarrow> (billingFailure (errorMessage e), st)
         | Inr st1 \<Rightarrow>
        (case invoices_create (nowSeconds env) customerId description
                (AList.update ''type'' ''overage_billing'' metadata) st1 of
           Inl e \<Rightarrow> (billingFailure (errorMessage e), st1)
         | Inr (invoice, st2) \<Rightarrow>
        (case (if si_status invoice = ''draft'' then invoices_finalizeInvoice invoice st2
               else Inr (invoice, st2)) of
           Inl e \<Rightarrow> (billingFailure (errorMessage e), st2)
         | Inr (finalInvoice, st3) \<Rightarrow>
             let paid = (if si_status finalInvoice = ''open'' then
                           (case invoices_pay finalInvoice st3 of
                              Inl e \<Rightarrow> (finalInvoice, st3)
                            | Inr (paidInvoice, st4) \<Rightarrow> (paidInvoice, st4))
                         else (finalInvoice, st3))
             in (billingSuccess overageAmount (Some (si_id (fst paid))), snd paid)))))))))"

text \<open>\<^verbatim>\<open>subscription?.plan || 'free'\<close>\<close>

definition planOrFree :: "subscriptionRow option \<Rightarrow> string" where
  "planOrFree subscription =
     (case subscription of
        None \<Rightarrow> ''free''
      | Some s \<Rightarrow> if sub_plan s = [] then ''free'' else sub_plan s)"

record userOverage =
  uo_basePrice :: jsnum
  uo_actualUsage :: jsnum
  uo_overageAmount :: jsnum
  uo_plan :: string

text \<open>
  \<^verbatim>\<open>calculateUserOverage\<close>: \<open>None\<close> is the \<^verbatim>\<open>null\<close> that the source returns for an unknown
  user and from its \<^verbatim>\<open>catch\<close> block.
\<close>

definition calculateUserOverage ::
  "tierLimits \<Rightarrow> collaborators \<Rightarrow> string \<Rightarrow> store \<Rightarrow> userOverage option" where
  "calculateUserOverage cfg co userId db =
     (case getHighestPrioritySubscription co db userId of
        Inl e \<Rightarrow> None
      | Inr subscription \<Rightarrow>
     (case getUserUsageData co db userId of
        Inl e \<Rightarrow> None
      | Inr usage \<Rightarrow>
          if find (\<lambda>u. user_id u = userId) (userTable db) = None then None
          else
            let plan = planOrFree subscription in
            (case getPlanPricing cfg plan subscription of
               Inl e \<Rightarrow> None
             | Inr basePrice \<Rightarrow>
                 let actualUsage = currentUsage usage;
                     overageAmount = Math_max (Fin 0) (js_sub actualUsage basePrice)
                 in Some \<lparr>uo_basePrice = basePrice, uo_actualUsage = actualUsage,
                          uo_overageAmount = overageAmount, uo_plan = plan\<rparr>)))"

text \<open>
  The update of the customer's email before billing: \<^verbatim>\<open>requireStripeClient\<close> sits outside
  the inner \<^verbatim>\<open>try\<close>, so its failure fails the call, while a failed update is only logged.
\<close>

definition updateCustomerEmail ::
  "string \<Rightarrow> string option \<Rightarrow> stripe \<Rightarrow> error + stripe" where
  "updateCustomerEmail customerId email st =
     (if truthyText email then
        (if \<not> stripeAvailable RequireClient st then Inl StripeError
         else (case customers_update customerId (the email) st of
                 Inl e \<Rightarrow> Inr st
               | Inr st' \<Rightarrow> Inr st'))
      else Inr st)"

definition processUserOverageBilling ::
  "tierLimits \<Rightarrow> collaborators \<Rightarrow> jsenv \<Rightarrow> string \<Rightarrow> store \<Rightarrow> stripe \<Rightarrow>
     billingResult \<times> stripe" where
  "processUserOverageBilling cfg co env userId db st =
     (case calculateUserOverage cfg co userId db of
        None \<Rightarrow> (billingFailure ''Failed to calculate overage information'', st)
      | Some overageInfo \<Rightarrow>
          if uo_plan overageInfo = ''free'' then (billingSuccess (Fin 0) None, st)
          else if js_le (uo_overageAmount overageInfo) (Fin 0) then
            (billingSuccess (Fin 0) None, st)
          else
            (case getStripeCustomerId userId db of
               None \<Rightarrow> (billingFailure ''No Stripe customer ID found'', st)
             | Some stripeCustomerId \<Rightarrow>
                 (case updateCustomerEmail stripeCustomerId
                         (case find (\<lambda>u. user_id u = userId) (userTable db) of
                            None \<Rightarrow> None
                          | Some u \<Rightarrow> user_email u) st of
                    Inl e \<Rightarrow> (billingFailure ''Failed to process overage billing'', st)
                  | Inr st1 \<Rightarrow>
                      createOverageBillingInvoice env stripeCustomerId
                        (uo_overageAmount overageInfo)
                        (''Usage overage for '' @ uo_plan overageInfo @ '' plan - $'' @
                           toFixed2 env (uo_overageAmount overageInfo) @ '' above $'' @
                           numberToString env (uo_basePrice overageInfo) @ '' base'')
                        [(''userId'', userId),
                         (''plan'', uo_plan overageInfo),
                         (''basePrice'', numberToString env (uo_basePrice overageInfo)),
                         (''actualUsage'', numberToString env (uo_actualUsage overageInfo)),
                         (''overageAmount'', numberToString env (uo_overageAmount overageInfo)),
                         (''billingPeriod'', isoMonth env (nowSeconds env))]
                        st1)))"

subsection \<open>Organizations\<close>



text \<open>\<^verbatim>\<open>subscription.seats || 1\<close>\<close>

definition licensedSeats :: "subscriptionRow \<Rightarrow> int" where
  "licensedSeats subscription =
     (case sub_seats subscription of None \<Rightarrow> 1 | Some n \<Rightarrow> if n = 0 then 1 else n)"







section \<open>Renewal invoices\<close>

text \<open>
  \<^verbatim>\<open>addOverageItem\<close>, the helper inside \<^verbatim>\<open>handleInvoiceCreated\<close> and \<^verbatim>\<open>handleInvoiceUpcoming\<close>:
  an invoice item on the subscription, under an idempotency key made of customer,
  subscription and billing period. The two handlers differ in the second from which the
  billing period is taken.
\<close>

definition addOverageItem ::
  "jsenv \<Rightarrow> int \<Rightarrow> string \<Rightarrow> string \<Rightarrow> jsnum \<Rightarrow> (string \<times> string) list \<Rightarrow> stripe \<Rightarrow>
     error + stripe" where
  "addOverageItem env periodSeconds customerId subscriptionId amountDollars metadata st =
     (if \<not> stripeAvailable RequireClient st then Inl StripeError
      else
        let billingPeriod = isoMonth env periodSeconds
        in invoiceItems_create
             \<lparr>ii_customer = customerId, ii_subscription = Some subscriptionId,
              ii_amount = Math_round (js_mul amountDollars (Fin 100)),
              ii_description = ''Overage for '' @ billingPeriod,
              ii_metadata =
                foldl (\<lambda>al kv. AList.update (fst kv) (snd kv) al)
                  [(''type'', ''overage_billing''), (''billingPeriod'', billingPeriod)]
                  metadata\<rparr>
             (Some (customerId @ '':'' @ subscriptionId @ '':'' @ billingPeriod @ '':overage''))
             st)"

text \<open>\<^verbatim>\<open>invoice.lines?.data?.[0]?.period?.end || Math.floor(Date.now() / 1000)\<close>\<close>

definition invoicePeriodEnd :: "jsenv \<Rightarrow> invoiceEvent \<Rightarrow> int" where
  "invoicePeriodEnd env invoice =
     (case inv_firstLinePeriodEnd invoice of
        None \<Rightarrow> nowSeconds env
      | Some e \<Rightarrow> if e = 0 then nowSeconds env else e)"

fun sumMemberUsage :: "collaborators \<Rightarrow> store \<Rightarrow> string list \<Rightarrow> jsnum \<Rightarrow> error + jsnum" where
  "sumMemberUsage co db [] totalTeamUsage = Inr totalTeamUsage"
| "sumMemberUsage co db (m # rest) totalTeamUsage =
     (case getUserUsageData co db m of
        Inl e \<Rightarrow> Inl e
      | Inr usage \<Rightarrow> sumMemberUsage co db rest (js_add totalTeamUsage (currentUsage usage)))"

text \<open>
  The overage of the period that ends, as both handlers compute it: pooled for a team or
  enterprise subscription, the user's own otherwise. The result is the overage and the
  metadata of the invoice item.
\<close>

definition renewalOverage ::
  "tierLimits \<Rightarrow> collaborators \<Rightarrow> subscriptionRow \<Rightarrow> store \<Rightarrow>
     error + (jsnum \<times> (string \<times> string) list)" where
  "renewalOverage cfg co sub db =
     (if isOrgPlan (sub_plan sub) then
        (case sumMemberUsage co db (membersRows (sub_referenceId sub) db) (Fin 0) of
           Inl e \<Rightarrow> Inl e
         | Inr totalTeamUsage \<Rightarrow>
             (case getPlanPricing cfg (sub_plan sub) (Some sub) of
                Inl e \<Rightarrow> Inl e
              | Inr basePrice \<Rightarrow>
                  let baseSubscriptionAmount = js_mul (Fin (of_int (licensedSeats sub))) basePrice
                  in Inr (Math_max (Fin 0) (js_sub totalTeamUsage baseSubscriptionAmount),
                          [(''organizationId'', sub_referenceId sub)])))
      else
        (case getUserUsageData co db (sub_referenceId sub) of
           Inl e \<Rightarrow> Inl e
         | Inr usage \<Rightarrow>
             (case getPlanPricing cfg (sub_plan sub) (Some sub) of
                Inl e \<Rightarrow> Inl e
              | Inr basePrice \<Rightarrow>
                  Inr (Math_max (Fin 0) (js_sub (currentUsage usage) basePrice),
                       [(''userId'', sub_referenceId sub)]))))"

text \<open>
  \<^verbatim>\<open>handleInvoiceCreated\<close>: for a renewal invoice of a known subscription the overage is
  attached as an invoice item and the usage is reset for the new period. A thrown error
  is rethrown; every call that can throw comes before the first write to the store.
\<close>

definition handleInvoiceCreated ::
  "tierLimits \<Rightarrow> collaborators \<Rightarrow> jsenv \<Rightarrow> invoiceEvent \<Rightarrow> store \<Rightarrow> stripe \<Rightarrow>
     error + (store \<times> stripe)" where
  "handleInvoiceCreated cfg co env invoice db st =
     (if invoiceSubscriptionId invoice = [] \<or> inv_billing_reason invoice \<noteq> ''subscription_cycle''
      then Inr (db, st)
      else
        (case selectSubscriptionByStripeId (invoiceSubscriptionId invoice) db of
           None \<Rightarrow> Inr (db, st)
         | Some sub \<Rightarrow>
             (case renewalOverage cfg co sub db of
                Inl e \<Rightarrow> Inl e
              | Inr (overage, metadata) \<Rightarrow>
                  (case (if js_gt overage (Fin 0) then
                           addOverageItem env (invoicePeriodEnd env invoice) (inv_customer invoice)
                             (invoiceSubscriptionId invoice) overage metadata st
                         else Inr st) of
                     Inl e \<Rightarrow> Inl e
                   | Inr st1 \<Rightarrow>
                       Inr (resetUsageForSubscription (sub_plan sub) (sub_referenceId sub) db,
                            st1)))))"

text \<open>
  \<^verbatim>\<open>handleInvoiceUpcoming\<close>: the same overage item, dated by the current month, and no write
  to the store.
\<close>

definition handleInvoiceUpcoming ::
  "tierLimits \<Rightarrow> collaborators \<Rightarrow> jsenv \<Rightarrow> invoiceEvent \<Rightarrow> store \<Rightarrow> stripe \<Rightarrow>
     error + (store \<times> stripe)" where
  "handleInvoiceUpcoming cfg co env invoice db st =
     (if invoiceSubscriptionId invoice = [] then Inr (db, st)
      else
        (case selectSubscriptionByStripeId (invoiceSubscriptionId invoice) db of
           None \<Rightarrow> Inr (db, st)
         | Some sub \<Rightarrow>
             (case renewalOverage cfg co sub db of
                Inl e \<Rightarrow> Inl e
              | Inr (overage, metadata) \<Rightarrow>
                  (case (if js_gt overage (Fin 0) then
                           addOverageItem env (nowSeconds env) (inv_customer invoice)
                             (invoiceSubscriptionId invoice) overage metadata st
                         else Inr st) of
                     Inl e \<Rightarrow> Inl e
                   | Inr st1 \<Rightarrow> Inr (db, st1)))))"

section \<open>Notions for stating the properties\<close>

text \<open>The value that a reset of one user writes to \<^verbatim>\<open>lastPeriodCost\<close>.\<close>

definition capturedCost :: "string \<Rightarrow> store \<Rightarrow> string" where
  "capturedCost u db =
     (case selectUserStats u db of
        None \<Rightarrow> ''0''
      | Some row \<Rightarrow> costOrZero (currentPeriodCost row))"

text \<open>Every usage row of the users in \<open>S\<close> has a current period cost of zero.\<close>

definition zeroed :: "string set \<Rightarrow> store \<Rightarrow> bool" where
  "zeroed S db \<longleftrightarrow>
     (\<forall>r \<in> set (userStatsTable db). stats_userId r \<in> S \<longrightarrow> currentPeriodCost r = Some ''0'')"

text \<open>Every usage row of the users in \<open>S\<close> has both costs at zero.\<close>

definition settled :: "string set \<Rightarrow> store \<Rightarrow> bool" where
  "settled S db \<longleftrightarrow>
     (\<forall>r \<in> set (userStatsTable db). stats_userId r \<in> S \<longrightarrow>
        currentPeriodCost r = Some ''0'' \<and> lastPeriodCost r = Some ''0'')"

text \<open>The part of a usage row that holds the costs, and the part that holds the block.\<close>

definition costView :: "store \<Rightarrow> (string \<times> string option \<times> string option) list" where
  "costView db =
     map (\<lambda>r. (stats_userId r, currentPeriodCost r, lastPeriodCost r)) (userStatsTable db)"


text \<open>
  The billing period that \<^verbatim>\<open>createOverageBillingInvoice\<close> works with, the invoice it
  creates, and the state of the payment provider after a call that creates an invoice
  while every operation of the provider succeeds.
\<close>

definition billingPeriodOf :: "jsenv \<Rightarrow> (string \<times> string) list \<Rightarrow> string" where
  "billingPeriodOf env metadata =
     (if truthyText (map_of metadata ''billingPeriod'')
      then the (map_of metadata ''billingPeriod'')
      else isoMonth env (nowSeconds env))"

definition newOverageInvoice ::
  "jsenv \<Rightarrow> string \<Rightarrow> string \<Rightarrow> (string \<times> string) list \<Rightarrow> stripe \<Rightarrow> stripeInvoice" where
  "newOverageInvoice env customer d metadata st =
     \<lparr>si_id = length (st_invoices st), si_customer = customer, si_created = nowSeconds env,
      si_status = st_statusOnCreate st, si_description = d,
      si_metadata = AList.update ''type'' ''overage_billing'' metadata\<rparr>"

definition stateAfterBilling ::
  "jsenv \<Rightarrow> string \<Rightarrow> jsnum \<Rightarrow> string \<Rightarrow> (string \<times> string) list \<Rightarrow> stripe \<Rightarrow> stripe" where
  "stateAfterBilling env customer amount d metadata st =
     (let n = length (st_invoices st);
          created = st\<lparr>st_invoiceItems :=
                          \<lparr>ii_customer = customer, ii_subscription = None,
                           ii_amount = Math_round (js_mul amount (Fin 100)),
                           ii_description = d,
                           ii_metadata = AList.update ''type'' ''overage_billing'' metadata\<rparr>
                          # st_invoiceItems st,
                        st_invoices := newOverageInvoice env customer d metadata st # st_invoices st\<rparr>;
          finalized = (if st_statusOnCreate st = ''draft'' then setInvoiceStatus n ''open'' created
                       else created)
      in if st_statusOnCreate st = ''draft'' \<or> st_statusOnCreate st = ''open''
         then setInvoiceStatus n ''paid'' finalized else finalized)"

section \<open>Example data\<close>

text \<open>
  A store with a team of three (three licensed seats), an enterprise organization of two
  with a custom seat price of 75, a pro user, and a user on no plan. User \<^verbatim>\<open>u9\<close> of the
  last subscription has no usage row.
\<close>

definition exampleLimits :: tierLimits where
  "exampleLimits =
     \<lparr>getFreeTierLimit = Fin 10, getProTierLimit = Fin 20,
      getTeamTierLimitPerSeat = Fin 40, getEnterpriseTierLimitPerSeat = Fin 200\<rparr>"

definition teamSubscription :: subscriptionRow where
  "teamSubscription =
     \<lparr>sub_id = ''s1'', sub_plan = ''team'', sub_referenceId = ''org1'', sub_status = ''active'',
      sub_seats = Some 3, sub_metadata = MetaAbsent,
      sub_stripeSubscriptionId = Some ''sub_team''\<rparr>"

definition proSubscription :: subscriptionRow where
  "proSubscription =
     \<lparr>sub_id = ''s2'', sub_plan = ''pro'', sub_referenceId = ''u4'', sub_status = ''active'',
      sub_seats = None, sub_metadata = MetaAbsent,
      sub_stripeSubscriptionId = Some ''sub_pro''\<rparr>"

definition enterpriseSubscription :: subscriptionRow where
  "enterpriseSubscription =
     \<lparr>sub_id = ''s3'', sub_plan = ''enterprise'', sub_referenceId = ''org2'',
      sub_status = ''active'', sub_seats = Some 2,
      sub_metadata = MetaObject (JStr ''75''),
      sub_stripeSubscriptionId = Some ''sub_ent''\<rparr>"

definition orphanSubscription :: subscriptionRow where
  "orphanSubscription =
     \<lparr>sub_id = ''s4'', sub_plan = ''pro'', sub_referenceId = ''u9'', sub_status = ''active'',
      sub_seats = None, sub_metadata = MetaAbsent,
      sub_stripeSubscriptionId = Some ''sub_orphan''\<rparr>"

definition usageRow :: "string \<Rightarrow> string \<Rightarrow> bool \<Rightarrow> userStatsRow" where
  "usageRow u cost blocked =
     \<lparr>stats_userId = u, currentPeriodCost = Some cost, lastPeriodCost = None,
      billingBlocked = blocked\<rparr>"

definition exampleUser :: "string \<Rightarrow> string \<Rightarrow> userRow" where
  "exampleUser u customer =
     \<lparr>user_id = u, user_name = u, user_email = Some (u @ ''@example.com''),
      user_stripeCustomerId = Some customer\<rparr>"

definition exampleStore :: store where
  "exampleStore =
     \<lparr>userTable =
        [exampleUser ''u1'' ''cus_1'', exampleUser ''u2'' ''cus_2'', exampleUser ''u3'' ''cus_3'',
         exampleUser ''u4'' ''cus_4'', exampleUser ''u5'' ''cus_5'', exampleUser ''u7'' ''cus_7'',
         exampleUser ''u8'' ''cus_8''],
      organizationTable = [''org1'', ''org2''],
      memberTable =
        [\<lparr>member_userId = ''u1'', member_organizationId = ''org1'', member_role = ''owner''\<rparr>,
         \<lparr>member_userId = ''u2'', member_organizationId = ''org1'', member_role = ''member''\<rparr>,
         \<lparr>member_userId = ''u3'', member_organizationId = ''org1'', member_role = ''member''\<rparr>,
         \<lparr>member_userId = ''u7'', member_organizationId = ''org2'', member_role = ''owner''\<rparr>,
         \<lparr>member_userId = ''u8'', member_organizationId = ''org2'', member_role = ''member''\<rparr>],
      subscriptionTable =
        [teamSubscription, proSubscription, enterpriseSubscription, orphanSubscription],
      userStatsTable =
        [usageRow ''u1'' ''50'' False, usageRow ''u2'' ''40'' True, usageRow ''u3'' ''45'' False,
         usageRow ''u4'' ''35'' False, usageRow ''u5'' ''5'' False, usageRow ''u7'' ''120'' False,
         usageRow ''u8'' ''80'' False]\<rparr>"

text \<open>
  Collaborators for the examples: the usage of a user is the current period cost of the
  usage row, read as a number, and the subscription of a user is the first active one
  that refers to the user.
\<close>

definition exampleCollaborators :: collaborators where
  "exampleCollaborators =
     \<lparr>getHighestPrioritySubscription =
        (\<lambda>db u. Inr (find (\<lambda>s. sub_referenceId s = u \<and> sub_status s = ''active'')
                         (subscriptionTable db))),
      getUserUsageData =
        (\<lambda>db u. case selectUserStats u db of
                   None \<Rightarrow> Inl LookupError
                 | Some r \<Rightarrow> Inr \<lparr>currentUsage = parseFloat (costOrZero (currentPeriodCost r))\<rparr>)\<rparr>"

text \<open>
  An environment for the examples, on 3 November 2026. The clock functions are right for
  October to December 2026; the printed form of a number takes no part in any branch of
  the code, so one text stands for all of them.
\<close>

definition exampleEnv :: jsenv where
  "exampleEnv =
     \<lparr>nowSeconds = 1793707200,
      isoMonth = (\<lambda>t. if t < 1793491200 then ''2026-10''
                       else if t < 1796083200 then ''2026-11'' else ''2026-12''),
      monthStart = (\<lambda>p. if p = ''2026-10'' then Some 1790812800
                         else if p = ''2026-11'' then Some 1793491200
                         else if p = ''2026-12'' then Some 1796083200 else None),
      numberToString = (\<lambda>n. ''n''),
      toFixed2 = (\<lambda>n. ''n.00''),
      stringifyMemberDetails = (\<lambda>ds. ''details'')\<rparr>"

definition exampleStripe :: stripe where
  "exampleStripe =
     \<lparr>st_invoices = [], st_invoiceItems = [],
      st_customers = [(''cus_1'', Some ''u1@example.com''), (''cus_4'', Some ''u4@example.com''),
                      (''cus_7'', None)],
      st_idempotencyKeys = [], st_failing = [], st_statusOnCreate = ''draft''\<rparr>"

definition renewalInvoice :: "string \<Rightarrow> string \<Rightarrow> invoiceEvent" where
  "renewalInvoice subscriptionId customerId =
     \<lparr>inv_id = ''in_1'', inv_subscription = Some subscriptionId,
      inv_billing_reason = ''subscription_cycle'', inv_customer = customerId,
      inv_metadata = [], inv_attempt_count = Some 1, inv_firstLinePeriodEnd = Some 1793491200\<rparr>"

definition overageInvoice :: "string \<Rightarrow> string \<Rightarrow> invoiceEvent" where
  "overageInvoice subscriptionId customerId =
     \<lparr>inv_id = ''in_2'', inv_subscription = Some subscriptionId,
      inv_billing_reason = ''manual'', inv_customer = customerId,
      inv_metadata = [(''type'', ''overage_billing''), (''billingPeriod'', ''2026-11'')],
      inv_attempt_count = Some 1, inv_firstLinePeriodEnd = None\<rparr>"

text \<open>The overage item of the pro user \<^verbatim>\<open>u4\<close> for November 2026: 15 dollars, in cents.\<close>

definition overageItem :: stripeInvoiceItem where
  "overageItem =
     \<lparr>ii_customer = ''cus_4'', ii_subscription = Some ''sub_pro'', ii_amount = Fin 1500,
      ii_description = ''Overage for 2026-11'',
      ii_metadata = [(''type'', ''overage_billing''), (''billingPeriod'', ''2026-11''),
                     (''userId'', ''u4'')]\<rparr>"

text \<open>
  The payment provider after one and after two calls of \<^verbatim>\<open>createOverageBillingInvoice\<close> for
  customer \<^verbatim>\<open>cus_1\<close> with an overage of 15 and no metadata.
\<close>

definition untaggedInvoice :: "nat \<Rightarrow> stripeInvoice" where
  "untaggedInvoice n =
     \<lparr>si_id = n, si_customer = ''cus_1'', si_created = 1793707200, si_status = ''paid'',
      si_description = ''overage'', si_metadata = [(''type'', ''overage_billing'')]\<rparr>"

definition untaggedItem :: stripeInvoiceItem where
  "untaggedItem =
     \<lparr>ii_customer = ''cus_1'', ii_subscription = None, ii_amount = Fin 1500,
      ii_description = ''overage'', ii_metadata = [(''type'', ''overage_billing'')]\<rparr>"

definition stripeAfterOneCall :: stripe where
  "stripeAfterOneCall =
     exampleStripe\<lparr>st_invoices := [untaggedInvoice 0], st_invoiceItems := [untaggedItem]\<rparr>"

definition stripeAfterTwoCalls :: stripe where
  "stripeAfterTwoCalls =
     exampleStripe\<lparr>st_invoices := [untaggedInvoice 1, untaggedInvoice 0],
                    st_invoiceItems := [untaggedItem, untaggedItem]\<rparr>"

section \<open>Properties\<close>

subsection \<open>Arithmetic on JavaScript numbers\<close>

lemma js_sub_zero [simp]: "js_sub x (Fin 0) = x"
  by (cases x) (simp_all add: js_sub_def)

lemma js_sub_Fin [simp]: "js_sub (Fin a) (Fin b) = Fin (a - b)"
  by (simp add: js_sub_def)

lemma js_mul_Fin [simp]: "js_mul (Fin a) (Fin b) = Fin (a * b)"
  by simp

lemma Math_max_Fin [simp]: "Math_max (Fin a) (Fin b) = Fin (max a b)"
  by (simp add: max_def)




lemma Math_round_of_int: "Math_round (Fin (of_int k)) = Fin (of_int k)"
proof -
  have "\<lfloor>(of_int k :: rat) + 1 / 2\<rfloor> = k"
    by (rule floor_unique) simp_all
  then show ?thesis by simp
qed

lemma Math_round_numeral: "Math_round (Fin (numeral n)) = Fin (numeral n)"
  using Math_round_of_int [of "numeral n"] by simp

lemma isFinite_round_cents: "isFinite amount \<Longrightarrow> isFinite (Math_round (js_mul amount (Fin 100)))"
  by (cases amount) simp_all

lemma parseFloat_empty [simp]: "parseFloat [] = NaN"
  by (simp add: parseFloat_def)


subsection \<open>Evaluating the examples\<close>

lemmas parse_defs = parseFloat_def unsignedDecimal_def isStrWhiteSpaceChar_def
  isDecimalDigit_def digitsValue_def scale10_def exponentPart_def

lemmas example_defs = exampleStore_def exampleLimits_def teamSubscription_def
  proSubscription_def enterpriseSubscription_def orphanSubscription_def usageRow_def
  exampleUser_def exampleCollaborators_def exampleEnv_def exampleStripe_def
  renewalInvoice_def overageInvoice_def

lemmas store_defs = membersRows_def selectUserStats_def updateUserStats_def
  selectSubscriptionByStripeId_def resetUsageOfUser_def resetUsageForSubscription_def
  isOrgPlan_def costOrZero_def subjectIds_def setBillingBlocked_def userWasBlocked_def
  invoiceSubscriptionId_def

lemmas stripe_defs = stripeAvailable_def invoices_list_def customers_retrieve_def
  customers_update_def invoiceItems_create_def invoices_create_def setInvoiceStatus_def
  invoices_finalizeInvoice_def invoices_pay_def existingOverageInvoice_def truthyText_def
  billingSuccess_def billingFailure_def

lemmas c4_defs = untaggedInvoice_def untaggedItem_def stripeAfterOneCall_def
  stripeAfterTwoCalls_def

lemma example_team_subjects:
  "subjectIds teamSubscription exampleStore = [''u1'', ''u2'', ''u3'']"
  by (simp add: example_defs store_defs)

lemma example_pro_subjects: "subjectIds proSubscription exampleStore = [''u4'']"
  by (simp add: example_defs store_defs)

lemma example_select_team:
  "selectSubscriptionByStripeId ''sub_team'' exampleStore = Some teamSubscription"
  by (simp add: example_defs store_defs)

lemma example_select_pro:
  "selectSubscriptionByStripeId ''sub_pro'' exampleStore = Some proSubscription"
  by (simp add: example_defs store_defs)



lemma renewalInvoice_fields:
  "invoiceSubscriptionId (renewalInvoice s c) = s"
  "inv_billing_reason (renewalInvoice s c) = ''subscription_cycle''"
  "inv_customer (renewalInvoice s c) = c"
  "invoicePeriodEnd env (renewalInvoice s c) = 1793491200"
  by (simp_all add: renewalInvoice_def invoiceSubscriptionId_def invoicePeriodEnd_def)

subsection \<open>Plan pricing\<close>



lemma getPlanPricing_free: "getPlanPricing cfg ''free'' s = Inr (Fin 0)"
  by (simp add: getPlanPricing_def)

subsection \<open>The overage of a user\<close>



text \<open>
  Claim C7, as stated, fails for the overage that \<^verbatim>\<open>calculateUserOverage\<close> reports: with a
  base price of 0 the reported overage of a user on the free plan is the usage itself.
  User \<^verbatim>\<open>u5\<close> has no subscription and a usage of 5.
\<close>

theorem C7_free_plan_counterexample:
  "calculateUserOverage exampleLimits exampleCollaborators ''u5'' exampleStore =
     Some \<lparr>uo_basePrice = Fin 0, uo_actualUsage = Fin 5, uo_overageAmount = Fin 5,
           uo_plan = ''free''\<rparr>"
  by (simp add: calculateUserOverage_def getPlanPricing_def planOrFree_def example_defs
        store_defs parse_defs Let_def)

text \<open>
  Claim C7, amended. On the free plan \<^verbatim>\<open>getPlanPricing\<close> returns a base price of 0. For an
  existing user on the free plan \<^verbatim>\<open>calculateUserOverage\<close> reports \<^verbatim>\<open>Math.max(0, usage)\<close> as the
  overage, and \<^verbatim>\<open>processUserOverageBilling\<close> bills none of it: it returns success with a
  charged amount of 0 and leaves the payment provider untouched.
\<close>

theorem C7_free_plan:
  assumes "find (\<lambda>u. user_id u = userId) (userTable db) \<noteq> None"
    and "getHighestPrioritySubscription co db userId = Inr subscription"
    and "planOrFree subscription = ''free''"
    and "getUserUsageData co db userId = Inr usage"
  shows "getPlanPricing cfg ''free'' anySubscription = Inr (Fin 0) \<and>
         calculateUserOverage cfg co userId db =
           Some \<lparr>uo_basePrice = Fin 0, uo_actualUsage = currentUsage usage,
                 uo_overageAmount = Math_max (Fin 0) (currentUsage usage), uo_plan = ''free''\<rparr> \<and>
         processUserOverageBilling cfg co env userId db st = (billingSuccess (Fin 0) None, st)"
proof -
  have calc: "calculateUserOverage cfg co userId db =
           Some \<lparr>uo_basePrice = Fin 0, uo_actualUsage = currentUsage usage,
                 uo_overageAmount = Math_max (Fin 0) (currentUsage usage), uo_plan = ''free''\<rparr>"
    using assms by (auto simp: calculateUserOverage_def getPlanPricing_free Let_def)
  then have "processUserOverageBilling cfg co env userId db st = (billingSuccess (Fin 0) None, st)"
    by (simp add: processUserOverageBilling_def)
  with calc show ?thesis by (simp add: getPlanPricing_free)
qed

text \<open>
  An instance: user \<^verbatim>\<open>u5\<close>, who has no subscription, is billed nothing.
\<close>

theorem C7_free_plan_witness:
  "find (\<lambda>u. user_id u = ''u5'') (userTable exampleStore) \<noteq> None \<and>
   getHighestPrioritySubscription exampleCollaborators exampleStore ''u5'' = Inr None \<and>
   planOrFree None = ''free'' \<and>
   getUserUsageData exampleCollaborators exampleStore ''u5'' = Inr \<lparr>currentUsage = Fin 5\<rparr> \<and>
   processUserOverageBilling exampleLimits exampleCollaborators exampleEnv ''u5'' exampleStore
     exampleStripe = (billingSuccess (Fin 0) None, exampleStripe)"
proof -
  have h1: "find (\<lambda>u. user_id u = ''u5'') (userTable exampleStore) \<noteq> None"
    by (simp add: example_defs)
  have h2: "getHighestPrioritySubscription exampleCollaborators exampleStore ''u5'' = Inr None"
    by (simp add: example_defs)
  have h3: "planOrFree None = ''free''"
    by (simp add: planOrFree_def)
  have h4: "getUserUsageData exampleCollaborators exampleStore ''u5'' = Inr \<lparr>currentUsage = Fin 5\<rparr>"
    by (simp add: example_defs store_defs parse_defs)
  from C7_free_plan [OF h1 h2 h3 h4, of exampleLimits None exampleEnv exampleStripe] h1 h2 h3 h4
  show ?thesis by simp
qed

subsection \<open>The overage of an organization\<close>




subsection \<open>The usage reset\<close>

lemma updateUserStats_tables [simp]:
  "userTable (updateUserStats u f db) = userTable db"
  "organizationTable (updateUserStats u f db) = organizationTable db"
  "memberTable (updateUserStats u f db) = memberTable db"
  "subscriptionTable (updateUserStats u f db) = subscriptionTable db"
  by (simp_all add: updateUserStats_def)

lemma updateUserStats_rows:
  "userStatsTable (updateUserStats u f db) =
     map (\<lambda>r. if stats_userId r = u then f r else r) (userStatsTable db)"
  by (simp add: updateUserStats_def)

lemma selectUserStats_None: "selectUserStats u db = None \<longleftrightarrow> u \<notin> stats_userId ` set (userStatsTable db)"
  by (auto simp: selectUserStats_def find_None_iff)

lemma updateUserStats_absent:
  "selectUserStats u db = None \<Longrightarrow> updateUserStats u f db = db"
proof -
  assume "selectUserStats u db = None"
  then have "\<forall>r \<in> set (userStatsTable db). stats_userId r \<noteq> u"
    by (auto simp: selectUserStats_None)
  then have "map (\<lambda>r. if stats_userId r = u then f r else r) (userStatsTable db) = userStatsTable db"
    by (simp add: map_idI)
  then show ?thesis by (simp add: updateUserStats_def)
qed

lemma resetUsageOfUser_eq:
  "resetUsageOfUser u db = updateUserStats u (\<lambda>r. r\<lparr>lastPeriodCost := Some (capturedCost u db), currentPeriodCost := Some ''0''\<rparr>) db"
  by (cases "selectUserStats u db") (simp_all add: resetUsageOfUser_def capturedCost_def updateUserStats_absent)

lemma resetUsageOfUser_tables [simp]:
  "userTable (resetUsageOfUser u db) = userTable db"
  "organizationTable (resetUsageOfUser u db) = organizationTable db"
  "memberTable (resetUsageOfUser u db) = memberTable db"
  "subscriptionTable (resetUsageOfUser u db) = subscriptionTable db"
  by (simp_all add: resetUsageOfUser_eq)

lemma resetUsageOfUser_rows:
  "userStatsTable (resetUsageOfUser u db) =
     map (\<lambda>r. if stats_userId r = u
              then r\<lparr>lastPeriodCost := Some (capturedCost u db), currentPeriodCost := Some ''0''\<rparr>
              else r) (userStatsTable db)"
  by (simp add: resetUsageOfUser_eq updateUserStats_rows)

lemma resetUsageOfUser_ids:
  "map stats_userId (userStatsTable (resetUsageOfUser u db)) = map stats_userId (userStatsTable db)"
  by (simp add: resetUsageOfUser_rows)

lemma resetUsageOfUser_absent:
  "selectUserStats u db = None \<Longrightarrow> resetUsageOfUser u db = db"
  by (simp add: resetUsageOfUser_def)

lemma resetUsageOfUser_other:
  "i < length (userStatsTable db) \<Longrightarrow> stats_userId (userStatsTable db ! i) \<noteq> u \<Longrightarrow>
     userStatsTable (resetUsageOfUser u db) ! i = userStatsTable db ! i"
  by (simp add: resetUsageOfUser_rows)

lemma resetUsageOfUser_last:
  assumes "r \<in> set (userStatsTable (resetUsageOfUser u db))" and "stats_userId r = u"
  shows "lastPeriodCost r = Some (capturedCost u db)"
proof -
  from assms(1) obtain x where x: "x \<in> set (userStatsTable db)"
    and r: "r = (if stats_userId x = u
                 then x\<lparr>lastPeriodCost := Some (capturedCost u db), currentPeriodCost := Some ''0''\<rparr>
                 else x)"
    by (auto simp: resetUsageOfUser_rows)
  show ?thesis
  proof (cases "stats_userId x = u")
    case True
    with r show ?thesis by simp
  next
    case False
    with r assms(2) show ?thesis by simp
  qed
qed

lemma resetAll_tables [simp]:
  "userTable (foldl (\<lambda>d m. resetUsageOfUser m d) db ms) = userTable db"
  "organizationTable (foldl (\<lambda>d m. resetUsageOfUser m d) db ms) = organizationTable db"
  "memberTable (foldl (\<lambda>d m. resetUsageOfUser m d) db ms) = memberTable db"
  "subscriptionTable (foldl (\<lambda>d m. resetUsageOfUser m d) db ms) = subscriptionTable db"
  by (induction ms arbitrary: db; simp)+

lemma resetAll_ids:
  "map stats_userId (userStatsTable (foldl (\<lambda>d m. resetUsageOfUser m d) db ms)) =
     map stats_userId (userStatsTable db)"
  by (induction ms arbitrary: db) (simp_all add: resetUsageOfUser_ids)

lemma resetAll_absent:
  "\<forall>u \<in> set ms. selectUserStats u db = None \<Longrightarrow> foldl (\<lambda>d m. resetUsageOfUser m d) db ms = db"
  by (induction ms arbitrary: db) (simp_all add: resetUsageOfUser_absent)

lemma resetAll_other:
  "i < length (userStatsTable db) \<Longrightarrow> stats_userId (userStatsTable db ! i) \<notin> set ms \<Longrightarrow>
     userStatsTable (foldl (\<lambda>d m. resetUsageOfUser m d) db ms) ! i = userStatsTable db ! i"
proof (induction ms arbitrary: db)
  case Nil
  then show ?case by simp
next
  case (Cons m ms)
  let ?d = "resetUsageOfUser m db"
  have len: "length (userStatsTable ?d) = length (userStatsTable db)"
    by (simp add: resetUsageOfUser_rows)
  have same: "userStatsTable ?d ! i = userStatsTable db ! i"
    using Cons.prems by (simp add: resetUsageOfUser_other)
  have "userStatsTable (foldl (\<lambda>d m. resetUsageOfUser m d) ?d ms) ! i = userStatsTable ?d ! i"
    using Cons.prems len same by (intro Cons.IH) simp_all
  then show ?case using same by simp
qed

text \<open>
  Claim C10. \<^verbatim>\<open>resetUsageForSubscription\<close> writes to the usage table only: the other tables
  stay as they are, no usage row is added or removed, a row of a user who is not a subject
  of the subscription (a member of the organization for a team or enterprise plan, the
  referenced user otherwise) is untouched, and when no subject has a usage row the whole
  store is unchanged.
\<close>

theorem C10_reset_frame:
  "userTable (resetUsageForSubscription plan ref db) = userTable db \<and>
   organizationTable (resetUsageForSubscription plan ref db) = organizationTable db \<and>
   memberTable (resetUsageForSubscription plan ref db) = memberTable db \<and>
   subscriptionTable (resetUsageForSubscription plan ref db) = subscriptionTable db \<and>
   map stats_userId (userStatsTable (resetUsageForSubscription plan ref db)) =
     map stats_userId (userStatsTable db) \<and>
   (\<forall>i < length (userStatsTable db).
      stats_userId (userStatsTable db ! i) \<notin>
        set (if isOrgPlan plan then membersRows ref db else [ref]) \<longrightarrow>
      userStatsTable (resetUsageForSubscription plan ref db) ! i = userStatsTable db ! i) \<and>
   ((\<forall>u \<in> set (if isOrgPlan plan then membersRows ref db else [ref]).
       selectUserStats u db = None) \<longrightarrow>
    resetUsageForSubscription plan ref db = db)"
proof (cases "isOrgPlan plan")
  case True
  then show ?thesis
    by (simp add: resetUsageForSubscription_def resetAll_ids resetAll_other resetAll_absent)
next
  case False
  then show ?thesis
    by (simp add: resetUsageForSubscription_def resetUsageOfUser_ids resetUsageOfUser_other
          resetUsageOfUser_absent)
qed

text \<open>
  An instance: the reset for user \<^verbatim>\<open>u9\<close>, who has no usage row, changes nothing, and the reset of
  the team leaves the row of user \<^verbatim>\<open>u4\<close> alone.
\<close>

theorem C10_reset_frame_witness:
  "selectUserStats ''u9'' exampleStore = None \<and>
   resetUsageForSubscription ''pro'' ''u9'' exampleStore = exampleStore \<and>
   membersRows ''org1'' exampleStore = [''u1'', ''u2'', ''u3''] \<and>
   stats_userId (userStatsTable exampleStore ! 3) = ''u4'' \<and>
   userStatsTable (resetUsageForSubscription ''team'' ''org1'' exampleStore) ! 3 =
     userStatsTable exampleStore ! 3"
proof -
  have h1: "selectUserStats ''u9'' exampleStore = None"
    by (simp add: example_defs store_defs)
  have h2: "membersRows ''org1'' exampleStore = [''u1'', ''u2'', ''u3'']"
    by (simp add: example_defs store_defs)
  have h3: "stats_userId (userStatsTable exampleStore ! 3) = ''u4''"
    by (simp add: example_defs)
  have len: "length (userStatsTable exampleStore) = 7"
    by (simp add: example_defs)
  have r1: "resetUsageForSubscription ''pro'' ''u9'' exampleStore = exampleStore"
    using C10_reset_frame [of "''pro''" "''u9''" exampleStore] h1
    by (simp add: isOrgPlan_def)
  have r2: "userStatsTable (resetUsageForSubscription ''team'' ''org1'' exampleStore) ! 3 =
     userStatsTable exampleStore ! 3"
    using C10_reset_frame [of "''team''" "''org1''" exampleStore] h2 h3 len
    by (simp add: isOrgPlan_def)
  from h1 h2 h3 r1 r2 show ?thesis by simp
qed

lemma reset_zeroed: "zeroed S db \<Longrightarrow> zeroed (insert u S) (resetUsageOfUser u db)"
  by (auto simp: zeroed_def resetUsageOfUser_rows)

lemma resetAll_zeroed:
  "zeroed S db \<Longrightarrow> zeroed (S \<union> set ms) (foldl (\<lambda>d m. resetUsageOfUser m d) db ms)"
proof (induction ms arbitrary: db S)
  case Nil
  then show ?case by simp
next
  case (Cons m ms)
  from Cons.prems have "zeroed (insert m S) (resetUsageOfUser m db)"
    by (rule reset_zeroed)
  then have "zeroed (insert m S \<union> set ms) (foldl (\<lambda>d m. resetUsageOfUser m d) (resetUsageOfUser m db) ms)"
    by (rule Cons.IH)
  then show ?case by simp
qed

lemma capturedCost_zeroed:
  assumes "zeroed T db" and "u \<in> T"
  shows "capturedCost u db = ''0''"
proof (cases "selectUserStats u db")
  case None
  then show ?thesis by (simp add: capturedCost_def)
next
  case (Some row)
  then have "row \<in> set (userStatsTable db)" and "stats_userId row = u"
    by (auto simp: selectUserStats_def find_Some_iff)
  with assms have "currentPeriodCost row = Some ''0''"
    by (auto simp: zeroed_def)
  with Some show ?thesis by (simp add: capturedCost_def costOrZero_def)
qed

lemma reset_settled:
  assumes "zeroed T db" and "u \<in> T" and "settled S db"
  shows "settled (insert u S) (resetUsageOfUser u db)"
  using assms(3) capturedCost_zeroed [OF assms(1,2)]
  by (auto simp: settled_def resetUsageOfUser_rows)

lemma reset_keeps_zeroed:
  "zeroed T db \<Longrightarrow> zeroed T (resetUsageOfUser u db)"
  by (auto simp: zeroed_def resetUsageOfUser_rows)

lemma resetAll_settled:
  "zeroed T db \<Longrightarrow> set ms \<subseteq> T \<Longrightarrow> settled S db \<Longrightarrow>
     settled (S \<union> set ms) (foldl (\<lambda>d m. resetUsageOfUser m d) db ms)"
proof (induction ms arbitrary: db S)
  case Nil
  then show ?case by simp
next
  case (Cons m ms)
  have z: "zeroed T (resetUsageOfUser m db)"
    using Cons.prems(1) by (rule reset_keeps_zeroed)
  have s: "settled (insert m S) (resetUsageOfUser m db)"
    using Cons.prems by (intro reset_settled [where T = T]) simp_all
  have "settled (insert m S \<union> set ms) (foldl (\<lambda>d m. resetUsageOfUser m d) (resetUsageOfUser m db) ms)"
    using z s Cons.prems(2) by (intro Cons.IH) simp_all
  then show ?case by simp
qed

lemma subjects_after_reset:
  "membersRows ref (resetUsageForSubscription plan ref' db) = membersRows ref db"
  by (simp add: membersRows_def resetUsageForSubscription_def)

lemma reset_subscription_zeroed:
  "zeroed (set (if isOrgPlan plan then membersRows ref db else [ref]))
     (resetUsageForSubscription plan ref db)"
proof (cases "isOrgPlan plan")
  case True
  have "zeroed ({} \<union> set (membersRows ref db))
          (foldl (\<lambda>d m. resetUsageOfUser m d) db (membersRows ref db))"
    by (rule resetAll_zeroed) (simp add: zeroed_def)
  with True show ?thesis by (simp add: resetUsageForSubscription_def)
next
  case False
  have "zeroed (insert ref {}) (resetUsageOfUser ref db)"
    by (rule reset_zeroed) (simp add: zeroed_def)
  with False show ?thesis by (simp add: resetUsageForSubscription_def)
qed

lemma reset_subscription_settled:
  assumes "zeroed (set (if isOrgPlan plan then membersRows ref db else [ref])) db"
  shows "settled (set (if isOrgPlan plan then membersRows ref db else [ref]))
     (resetUsageForSubscription plan ref db)"
proof (cases "isOrgPlan plan")
  case True
  have "settled ({} \<union> set (membersRows ref db))
          (foldl (\<lambda>d m. resetUsageOfUser m d) db (membersRows ref db))"
    using assms True by (intro resetAll_settled [where T = "set (membersRows ref db)"]) (simp_all add: settled_def)
  with True show ?thesis by (simp add: resetUsageForSubscription_def)
next
  case False
  have "settled (insert ref {}) (resetUsageOfUser ref db)"
    using assms False by (intro reset_settled [where T = "{ref}"]) (simp_all add: settled_def)
  with False show ?thesis by (simp add: resetUsageForSubscription_def)
qed

lemma double_reset_settled:
  "settled (set (if isOrgPlan plan then membersRows ref db else [ref]))
     (resetUsageForSubscription plan ref (resetUsageForSubscription plan ref db))"
  using reset_subscription_settled [of plan ref "resetUsageForSubscription plan ref db"]
    reset_subscription_zeroed [of plan ref db]
  by (simp add: subjects_after_reset cong: if_cong)

text \<open>
  Claim C5, as stated, fails: the second of two resets in succession writes the zero of
  the first into \<^verbatim>\<open>lastPeriodCost\<close>. For the pro user \<^verbatim>\<open>u4\<close> with a cost of 35, the first reset
  captures 35 and the second replaces it by 0.
\<close>

theorem C5_double_reset_counterexample:
  "costView exampleStore ! 3 = (''u4'', Some ''35'', None) \<and>
   costView (resetUsageForSubscription ''pro'' ''u4'' exampleStore) ! 3 =
     (''u4'', Some ''0'', Some ''35'') \<and>
   costView (resetUsageForSubscription ''pro'' ''u4''
      (resetUsageForSubscription ''pro'' ''u4'' exampleStore)) ! 3 =
     (''u4'', Some ''0'', Some ''0'')"
  by (simp add: costView_def example_defs store_defs)

text \<open>
  Claim C5, amended. After one reset the current period cost of every subject is zero, and
  for a user subscription \<^verbatim>\<open>lastPeriodCost\<close> holds the cost captured by that reset. After
  two resets in succession both costs of every subject are zero: the current period cost
  stays zero, and \<^verbatim>\<open>lastPeriodCost\<close> holds the zero that the first reset wrote.
\<close>

theorem C5_double_reset:
  "zeroed (set (if isOrgPlan plan then membersRows ref db else [ref]))
     (resetUsageForSubscription plan ref db) \<and>
   (\<not> isOrgPlan plan \<longrightarrow>
      (\<forall>r \<in> set (userStatsTable (resetUsageForSubscription plan ref db)).
         stats_userId r = ref \<longrightarrow> lastPeriodCost r = Some (capturedCost ref db))) \<and>
   settled (set (if isOrgPlan plan then membersRows ref db else [ref]))
     (resetUsageForSubscription plan ref (resetUsageForSubscription plan ref db))"
proof (intro conjI impI)
  show "zeroed (set (if isOrgPlan plan then membersRows ref db else [ref]))
     (resetUsageForSubscription plan ref db)"
    by (rule reset_subscription_zeroed)
  show "settled (set (if isOrgPlan plan then membersRows ref db else [ref]))
     (resetUsageForSubscription plan ref (resetUsageForSubscription plan ref db))"
    by (rule double_reset_settled)
  assume "\<not> isOrgPlan plan"
  then show "\<forall>r \<in> set (userStatsTable (resetUsageForSubscription plan ref db)).
         stats_userId r = ref \<longrightarrow> lastPeriodCost r = Some (capturedCost ref db)"
    by (simp add: resetUsageForSubscription_def resetUsageOfUser_last)
qed

text \<open>
  An instance: the pro user \<^verbatim>\<open>u4\<close> after one reset and after two.
\<close>

theorem C5_double_reset_witness:
  "isOrgPlan ''pro'' = False \<and>
   capturedCost ''u4'' exampleStore = ''35'' \<and>
   userStatsTable (resetUsageForSubscription ''pro'' ''u4'' exampleStore) ! 3 =
     \<lparr>stats_userId = ''u4'', currentPeriodCost = Some ''0'', lastPeriodCost = Some ''35'',
      billingBlocked = False\<rparr> \<and>
   userStatsTable (resetUsageForSubscription ''pro'' ''u4''
      (resetUsageForSubscription ''pro'' ''u4'' exampleStore)) ! 3 =
     \<lparr>stats_userId = ''u4'', currentPeriodCost = Some ''0'', lastPeriodCost = Some ''0'',
      billingBlocked = False\<rparr>"
  using C5_double_reset [of "''pro''" "''u4''" exampleStore]
  by (simp add: capturedCost_def example_defs store_defs)

subsection \<open>Blocking and unblocking\<close>

lemma blockAll_eq:
  "foldl (\<lambda>d m. setBillingBlocked b m d) db ms =
     db\<lparr>userStatsTable :=
          map (\<lambda>r. if stats_userId r \<in> set ms then r\<lparr>billingBlocked := b\<rparr> else r)
            (userStatsTable db)\<rparr>"
proof (induction ms arbitrary: db)
  case Nil
  then show ?case by simp
next
  case (Cons m ms)
  have "map (\<lambda>r. if stats_userId r \<in> set ms then r\<lparr>billingBlocked := b\<rparr> else r)
          (map (\<lambda>r. if stats_userId r = m then r\<lparr>billingBlocked := b\<rparr> else r) (userStatsTable db)) =
        map (\<lambda>r. if stats_userId r \<in> set (m # ms) then r\<lparr>billingBlocked := b\<rparr> else r)
          (userStatsTable db)"
    by (induction "userStatsTable db") auto
  moreover have "setBillingBlocked b m db =
      db\<lparr>userStatsTable :=
           map (\<lambda>r. if stats_userId r = m then r\<lparr>billingBlocked := b\<rparr> else r) (userStatsTable db)\<rparr>"
    by (simp add: setBillingBlocked_def updateUserStats_def)
  ultimately show ?case
    by (simp add: Cons.IH)
qed

lemma blockAll_tables [simp]:
  "userTable (foldl (\<lambda>d m. setBillingBlocked b m d) db ms) = userTable db"
  "organizationTable (foldl (\<lambda>d m. setBillingBlocked b m d) db ms) = organizationTable db"
  "memberTable (foldl (\<lambda>d m. setBillingBlocked b m d) db ms) = memberTable db"
  "subscriptionTable (foldl (\<lambda>d m. setBillingBlocked b m d) db ms) = subscriptionTable db"
  by (simp_all add: blockAll_eq)

lemma blockAll_blocked:
  "\<forall>r \<in> set (userStatsTable (foldl (\<lambda>d m. setBillingBlocked b m d) db ms)).
      stats_userId r \<in> set ms \<longrightarrow> billingBlocked r = b"
  by (auto simp: blockAll_eq)

lemma blockAll_noop:
  assumes "\<forall>r \<in> set (userStatsTable db). stats_userId r \<in> set ms \<longrightarrow> billingBlocked r = b"
  shows "foldl (\<lambda>d m. setBillingBlocked b m d) db ms = db"
proof -
  have "map (\<lambda>r. if stats_userId r \<in> set ms then r\<lparr>billingBlocked := b\<rparr> else r)
          (userStatsTable db) = userStatsTable db"
    using assms by (intro map_idI) auto
  then show ?thesis by (simp add: blockAll_eq)
qed


lemma blockAll_costs:
  "map (\<lambda>r. (stats_userId r, currentPeriodCost r, lastPeriodCost r))
     (userStatsTable (foldl (\<lambda>d m. setBillingBlocked b m d) db ms)) =
   map (\<lambda>r. (stats_userId r, currentPeriodCost r, lastPeriodCost r)) (userStatsTable db)"
  by (simp add: blockAll_eq)

lemma selectSubscription_blockAll [simp]:
  "selectSubscriptionByStripeId sid (foldl (\<lambda>d m. setBillingBlocked b m d) db ms) =
     selectSubscriptionByStripeId sid db"
  by (simp add: selectSubscriptionByStripeId_def)

lemma subjectIds_blockAll [simp]:
  "subjectIds sub (foldl (\<lambda>d m. setBillingBlocked b m d) db ms) = subjectIds sub db"
  by (simp add: subjectIds_def membersRows_def)

lemma resetUsageOfUser_blocked:
  "map (\<lambda>r. (stats_userId r, billingBlocked r)) (userStatsTable (resetUsageOfUser u db)) =
   map (\<lambda>r. (stats_userId r, billingBlocked r)) (userStatsTable db)"
  by (simp add: resetUsageOfUser_rows)

lemma resetAll_blocked:
  "map (\<lambda>r. (stats_userId r, billingBlocked r))
     (userStatsTable (foldl (\<lambda>d m. resetUsageOfUser m d) db ms)) =
   map (\<lambda>r. (stats_userId r, billingBlocked r)) (userStatsTable db)"
  by (induction ms arbitrary: db) (simp_all add: resetUsageOfUser_blocked)

lemma reset_subscription_blocked:
  "map (\<lambda>r. (stats_userId r, billingBlocked r))
     (userStatsTable (resetUsageForSubscription plan ref db)) =
   map (\<lambda>r. (stats_userId r, billingBlocked r)) (userStatsTable db)"
  by (simp add: resetUsageForSubscription_def resetAll_blocked resetUsageOfUser_blocked)

lemma blocked_view_transfer:
  assumes "map (\<lambda>r. (stats_userId r, billingBlocked r)) (userStatsTable db') =
           map (\<lambda>r. (stats_userId r, billingBlocked r)) (userStatsTable db)"
    and "\<forall>r \<in> set (userStatsTable db). stats_userId r \<in> S \<longrightarrow> billingBlocked r = b"
  shows "\<forall>r \<in> set (userStatsTable db'). stats_userId r \<in> S \<longrightarrow> billingBlocked r = b"
proof (intro ballI impI)
  fix r assume r: "r \<in> set (userStatsTable db')" and s: "stats_userId r \<in> S"
  from r have "(stats_userId r, billingBlocked r) \<in>
      set (map (\<lambda>r. (stats_userId r, billingBlocked r)) (userStatsTable db'))"
    by (simp add: image_iff) blast
  with assms(1) have "(stats_userId r, billingBlocked r) \<in>
      set (map (\<lambda>r. (stats_userId r, billingBlocked r)) (userStatsTable db))"
    by simp
  then obtain r0 where "r0 \<in> set (userStatsTable db)" "stats_userId r0 = stats_userId r"
      "billingBlocked r0 = billingBlocked r"
    by auto
  with assms(2) s show "billingBlocked r = b" by metis
qed

lemma userWasBlocked_row:
  "userWasBlocked m db \<Longrightarrow> \<exists>r \<in> set (userStatsTable db). stats_userId r = m \<and> billingBlocked r"
  by (auto simp: userWasBlocked_def selectUserStats_def find_Some_iff split: option.splits)

lemma handleInvoicePaymentSucceeded_eq:
  assumes "invoiceSubscriptionId invoice \<noteq> []"
    and "selectSubscriptionByStripeId (invoiceSubscriptionId invoice) db = Some sub"
  shows "handleInvoicePaymentSucceeded invoice db =
     (if list_ex (\<lambda>m. userWasBlocked m db) (subjectIds sub db)
      then resetUsageForSubscription (sub_plan sub) (sub_referenceId sub)
             (foldl (\<lambda>d m. setBillingBlocked False m d) db (subjectIds sub db))
      else foldl (\<lambda>d m. setBillingBlocked False m d) db (subjectIds sub db))"
  using assms by (simp add: handleInvoicePaymentSucceeded_def subjectIds_def Let_def)

text \<open>
  Claim C8. When \<^verbatim>\<open>handleInvoicePaymentSucceeded\<close> finds the subscription of the invoice, no
  usage row of a subject (a member of the organization for a team or enterprise plan, the
  user otherwise) is blocked afterwards. The usage is reset only if a subject was
  blocked: when none was, the store is left as it is; when one was, the result is the
  reset of the unblocked store.
\<close>

theorem C8_payment_succeeded:
  assumes "invoiceSubscriptionId invoice \<noteq> []"
    and "selectSubscriptionByStripeId (invoiceSubscriptionId invoice) db = Some sub"
  shows "(\<forall>r \<in> set (userStatsTable (handleInvoicePaymentSucceeded invoice db)).
            stats_userId r \<in> set (subjectIds sub db) \<longrightarrow> billingBlocked r = False) \<and>
         ((\<forall>r \<in> set (userStatsTable db).
            stats_userId r \<in> set (subjectIds sub db) \<longrightarrow> billingBlocked r = False) \<longrightarrow>
          handleInvoicePaymentSucceeded invoice db = db) \<and>
         ((\<exists>m \<in> set (subjectIds sub db). userWasBlocked m db) \<longrightarrow>
          handleInvoicePaymentSucceeded invoice db =
            resetUsageForSubscription (sub_plan sub) (sub_referenceId sub)
              (foldl (\<lambda>d m. setBillingBlocked False m d) db (subjectIds sub db))) \<and>
         (\<not> (\<exists>m \<in> set (subjectIds sub db). userWasBlocked m db) \<longrightarrow>
          handleInvoicePaymentSucceeded invoice db =
            foldl (\<lambda>d m. setBillingBlocked False m d) db (subjectIds sub db))"
proof -
  let ?S = "subjectIds sub db"
  let ?db1 = "foldl (\<lambda>d m. setBillingBlocked False m d) db ?S"
  note eq = handleInvoicePaymentSucceeded_eq [OF assms]
  have unblocked1: "\<forall>r \<in> set (userStatsTable ?db1). stats_userId r \<in> set ?S \<longrightarrow> billingBlocked r = False"
    by (rule blockAll_blocked)
  have unblocked2: "\<forall>r \<in> set (userStatsTable (resetUsageForSubscription (sub_plan sub) (sub_referenceId sub) ?db1)).
      stats_userId r \<in> set ?S \<longrightarrow> billingBlocked r = False"
    by (rule blocked_view_transfer [OF reset_subscription_blocked unblocked1])
  have a: "\<forall>r \<in> set (userStatsTable (handleInvoicePaymentSucceeded invoice db)).
            stats_userId r \<in> set ?S \<longrightarrow> billingBlocked r = False"
    using unblocked1 unblocked2 unfolding eq by (simp split: if_splits)
  have b: "handleInvoicePaymentSucceeded invoice db = db"
    if none: "\<forall>r \<in> set (userStatsTable db). stats_userId r \<in> set ?S \<longrightarrow> billingBlocked r = False"
  proof -
    have "\<not> list_ex (\<lambda>m. userWasBlocked m db) ?S"
      using none userWasBlocked_row by (fastforce simp: list_ex_iff)
    moreover have "?db1 = db" using none by (rule blockAll_noop)
    ultimately show ?thesis unfolding eq by simp
  qed
  have c: "handleInvoicePaymentSucceeded invoice db =
            resetUsageForSubscription (sub_plan sub) (sub_referenceId sub) ?db1"
    if "\<exists>m \<in> set ?S. userWasBlocked m db"
    using that unfolding eq by (simp add: list_ex_iff)
  have d: "handleInvoicePaymentSucceeded invoice db = ?db1"
    if "\<not> (\<exists>m \<in> set ?S. userWasBlocked m db)"
    using that unfolding eq by (simp add: list_ex_iff)
  from a b c d show ?thesis by blast
qed

text \<open>
  An instance: in the team user \<^verbatim>\<open>u2\<close> is blocked, so the usage is reset; the pro user \<^verbatim>\<open>u4\<close> is
  not blocked, so the store stays as it is.
\<close>

theorem C8_payment_succeeded_witness:
  "invoiceSubscriptionId (renewalInvoice ''sub_team'' ''cus_1'') \<noteq> [] \<and>
   selectSubscriptionByStripeId (invoiceSubscriptionId (renewalInvoice ''sub_team'' ''cus_1'')) exampleStore =
     Some teamSubscription \<and>
   userWasBlocked ''u2'' exampleStore \<and>
   handleInvoicePaymentSucceeded (renewalInvoice ''sub_team'' ''cus_1'') exampleStore =
     resetUsageForSubscription ''team'' ''org1''
       (foldl (\<lambda>d m. setBillingBlocked False m d) exampleStore [''u1'', ''u2'', ''u3'']) \<and>
   selectSubscriptionByStripeId (invoiceSubscriptionId (renewalInvoice ''sub_pro'' ''cus_4'')) exampleStore =
     Some proSubscription \<and>
   userWasBlocked ''u4'' exampleStore = False \<and>
   handleInvoicePaymentSucceeded (renewalInvoice ''sub_pro'' ''cus_4'') exampleStore = exampleStore"
proof -
  have id1: "invoiceSubscriptionId (renewalInvoice ''sub_team'' ''cus_1'') = ''sub_team''"
    and id2: "invoiceSubscriptionId (renewalInvoice ''sub_pro'' ''cus_4'') = ''sub_pro''"
    by (simp_all add: invoiceSubscriptionId_def renewalInvoice_def)
  have h1: "invoiceSubscriptionId (renewalInvoice ''sub_team'' ''cus_1'') \<noteq> []"
    and h1': "invoiceSubscriptionId (renewalInvoice ''sub_pro'' ''cus_4'') \<noteq> []"
    by (simp_all add: id1 id2)
  have h2: "selectSubscriptionByStripeId (invoiceSubscriptionId (renewalInvoice ''sub_team'' ''cus_1''))
      exampleStore = Some teamSubscription"
    by (simp add: id1 example_select_team)
  have h2': "selectSubscriptionByStripeId (invoiceSubscriptionId (renewalInvoice ''sub_pro'' ''cus_4''))
      exampleStore = Some proSubscription"
    by (simp add: id2 example_select_pro)
  have b2: "userWasBlocked ''u2'' exampleStore"
    by (simp add: example_defs store_defs)
  have b4: "userWasBlocked ''u4'' exampleStore = False"
    by (simp add: example_defs store_defs)
  have team: "sub_plan teamSubscription = ''team''" "sub_referenceId teamSubscription = ''org1''"
    by (simp_all add: teamSubscription_def)
  have r1: "handleInvoicePaymentSucceeded (renewalInvoice ''sub_team'' ''cus_1'') exampleStore =
     resetUsageForSubscription ''team'' ''org1''
       (foldl (\<lambda>d m. setBillingBlocked False m d) exampleStore [''u1'', ''u2'', ''u3''])"
    using C8_payment_succeeded [OF h1 h2] b2 by (simp add: example_team_subjects team)
  have nb: "\<forall>r \<in> set (userStatsTable exampleStore).
      stats_userId r \<in> set (subjectIds proSubscription exampleStore) \<longrightarrow> billingBlocked r = False"
    by (simp add: example_pro_subjects) (simp add: example_defs)
  have r2: "handleInvoicePaymentSucceeded (renewalInvoice ''sub_pro'' ''cus_4'') exampleStore = exampleStore"
    using C8_payment_succeeded [OF h1' h2'] nb by blast
  from h1 h2 b2 r1 h2' b4 r2 show ?thesis by simp
qed

lemma handleInvoicePaymentFailed_eq:
  "handleInvoicePaymentFailed invoice db =
     (if map_of (inv_metadata invoice) ''type'' = Some ''overage_billing'' \<and> attemptCount invoice \<ge> 1
         \<and> invoiceSubscriptionId invoice \<noteq> []
      then (case selectSubscriptionByStripeId (invoiceSubscriptionId invoice) db of
              None \<Rightarrow> db
            | Some sub \<Rightarrow> foldl (\<lambda>d m. setBillingBlocked True m d) db (subjectIds sub db))
      else db)"
  by (simp add: handleInvoicePaymentFailed_def subjectIds_def split: option.splits)

lemma handleInvoicePaymentFailed_costs:
  "map (\<lambda>r. (stats_userId r, currentPeriodCost r, lastPeriodCost r))
     (userStatsTable (handleInvoicePaymentFailed invoice db)) =
   map (\<lambda>r. (stats_userId r, currentPeriodCost r, lastPeriodCost r)) (userStatsTable db)"
  by (simp add: handleInvoicePaymentFailed_eq blockAll_costs split: option.splits)

text \<open>An attempt count that is unset or not negative always reaches the threshold.\<close>

lemma attemptCount_threshold:
  "(case inv_attempt_count invoice of None \<Rightarrow> True | Some n \<Rightarrow> 0 \<le> n) \<Longrightarrow> attemptCount invoice \<ge> 1"
  by (auto simp: attemptCount_def split: option.splits)



subsection \<open>Which handlers reset the usage\<close>

lemma handleInvoiceUpcoming_store:
  "handleInvoiceUpcoming cfg co env invoice db st = Inr (db', st') \<Longrightarrow> db' = db"
  by (auto simp: handleInvoiceUpcoming_def split: if_splits option.splits sum.splits prod.splits)

lemma handleInvoiceCreated_store:
  assumes "handleInvoiceCreated cfg co env invoice db st = Inr (db', st')"
  shows "db' =
     (if invoiceSubscriptionId invoice \<noteq> [] \<and> inv_billing_reason invoice = ''subscription_cycle''
      then (case selectSubscriptionByStripeId (invoiceSubscriptionId invoice) db of
              None \<Rightarrow> db
            | Some sub \<Rightarrow> resetUsageForSubscription (sub_plan sub) (sub_referenceId sub) db)
      else db)"
  using assms
  by (auto simp: handleInvoiceCreated_def split: if_splits option.splits sum.splits prod.splits)

lemma handleInvoicePaymentSucceeded_costs:
  assumes "costView (handleInvoicePaymentSucceeded invoice db) \<noteq> costView db"
  shows "\<exists>sub. selectSubscriptionByStripeId (invoiceSubscriptionId invoice) db = Some sub \<and>
           (\<exists>m \<in> set (subjectIds sub db). userWasBlocked m db)"
proof (rule ccontr)
  assume n: "\<not> ?thesis"
  show False
  proof (cases "invoiceSubscriptionId invoice = []")
    case True
    then have "handleInvoicePaymentSucceeded invoice db = db"
      by (simp add: handleInvoicePaymentSucceeded_def)
    with assms show False by simp
  next
    case False
    show False
    proof (cases "selectSubscriptionByStripeId (invoiceSubscriptionId invoice) db")
      case None
      then have "handleInvoicePaymentSucceeded invoice db = db"
        by (simp add: handleInvoicePaymentSucceeded_def)
      with assms show False by simp
    next
      case (Some sub)
      with n have "\<not> list_ex (\<lambda>m. userWasBlocked m db) (subjectIds sub db)"
        by (simp add: list_ex_iff)
      then have "handleInvoicePaymentSucceeded invoice db =
          foldl (\<lambda>d m. setBillingBlocked False m d) db (subjectIds sub db)"
        by (simp add: handleInvoicePaymentSucceeded_eq [OF False Some])
      then have "costView (handleInvoicePaymentSucceeded invoice db) = costView db"
        by (simp add: costView_def blockAll_costs)
      with assms show False by simp
    qed
  qed
qed

lemma example_renewalOverage_pro:
  "renewalOverage exampleLimits exampleCollaborators proSubscription exampleStore =
     Inr (Fin 15, [(''userId'', ''u4'')])"
  by (simp add: renewalOverage_def getPlanPricing_def example_defs store_defs parse_defs)

lemma example_addOverageItem:
  "1793491200 \<le> t \<Longrightarrow> t < 1796083200 \<Longrightarrow>
   addOverageItem exampleEnv t ''cus_4'' ''sub_pro'' (Fin 15) [(''userId'', ''u4'')] exampleStripe =
     Inr (exampleStripe\<lparr>st_invoiceItems := [overageItem],
            st_idempotencyKeys := [(''cus_4:sub_pro:2026-11:overage'', overageItem)]\<rparr>)"
  by (simp add: addOverageItem_def stripe_defs exampleEnv_def exampleStripe_def overageItem_def
        Math_round_numeral Let_def del: Math_round.simps)

lemma example_invoice_created:
  "handleInvoiceCreated exampleLimits exampleCollaborators exampleEnv
     (renewalInvoice ''sub_pro'' ''cus_4'') exampleStore exampleStripe =
     Inr (resetUsageForSubscription ''pro'' ''u4'' exampleStore,
          exampleStripe\<lparr>st_invoiceItems := [overageItem],
            st_idempotencyKeys := [(''cus_4:sub_pro:2026-11:overage'', overageItem)]\<rparr>)"
  by (simp add: handleInvoiceCreated_def renewalInvoice_fields example_select_pro
        example_renewalOverage_pro js_gt_def example_addOverageItem)
     (simp add: proSubscription_def)

lemma example_invoice_upcoming:
  "handleInvoiceUpcoming exampleLimits exampleCollaborators exampleEnv
     (renewalInvoice ''sub_pro'' ''cus_4'') exampleStore exampleStripe =
     Inr (exampleStore,
          exampleStripe\<lparr>st_invoiceItems := [overageItem],
            st_idempotencyKeys := [(''cus_4:sub_pro:2026-11:overage'', overageItem)]\<rparr>)"
proof -
  have now: "nowSeconds exampleEnv = 1793707200"
    by (simp add: exampleEnv_def)
  show ?thesis
    by (simp add: handleInvoiceUpcoming_def renewalInvoice_fields example_select_pro
          example_renewalOverage_pro js_gt_def example_addOverageItem now)
qed

lemma example_reset_u4:
  "costView exampleStore ! 3 = (''u4'', Some ''35'', None)"
  "costView (resetUsageForSubscription ''pro'' ''u4'' exampleStore) ! 3 =
     (''u4'', Some ''0'', Some ''35'')"
  by (simp_all add: costView_def example_defs store_defs)

text \<open>
  Claim C3, as stated, fails: \<^verbatim>\<open>handleInvoiceCreated\<close> zeroes the usage counter when the
  renewal invoice is created, before any payment. For the renewal invoice of the pro
  subscription of user \<^verbatim>\<open>u4\<close> it attaches the overage of 15 and resets the cost of 35 to 0.
\<close>

theorem C3_reset_on_invoice_created_counterexample:
  "handleInvoiceCreated exampleLimits exampleCollaborators exampleEnv
     (renewalInvoice ''sub_pro'' ''cus_4'') exampleStore exampleStripe =
     Inr (resetUsageForSubscription ''pro'' ''u4'' exampleStore,
          exampleStripe\<lparr>st_invoiceItems := [overageItem],
            st_idempotencyKeys := [(''cus_4:sub_pro:2026-11:overage'', overageItem)]\<rparr>) \<and>
   costView exampleStore ! 3 = (''u4'', Some ''35'', None) \<and>
   costView (resetUsageForSubscription ''pro'' ''u4'' exampleStore) ! 3 =
     (''u4'', Some ''0'', Some ''35'')"
  using example_invoice_created example_reset_u4 by simp

text \<open>
  Claim C3, amended. The usage counter is zeroed by the reset, which two handlers run.
  \<^verbatim>\<open>handleInvoiceCreated\<close>, when it returns, has reset the usage of the subscription for
  every renewal invoice with a known subscription and has left the store alone
  otherwise. \<^verbatim>\<open>handleInvoicePaymentSucceeded\<close> changes a cost only when a subject of the
  subscription was blocked. \<^verbatim>\<open>handleInvoiceUpcoming\<close> never writes to the store, and
  \<^verbatim>\<open>handleInvoicePaymentFailed\<close> never changes a cost.
\<close>

theorem C3_reset_sources:
  "(handleInvoiceCreated cfg co env invoice db st = Inr (db', st') \<longrightarrow>
      db' =
        (if invoiceSubscriptionId invoice \<noteq> [] \<and>
            inv_billing_reason invoice = ''subscription_cycle''
         then (case selectSubscriptionByStripeId (invoiceSubscriptionId invoice) db of
                 None \<Rightarrow> db
               | Some sub \<Rightarrow> resetUsageForSubscription (sub_plan sub) (sub_referenceId sub) db)
         else db)) \<and>
   (costView (handleInvoicePaymentSucceeded invoice db) \<noteq> costView db \<longrightarrow>
      (\<exists>sub. selectSubscriptionByStripeId (invoiceSubscriptionId invoice) db = Some sub \<and>
             (\<exists>m \<in> set (subjectIds sub db). userWasBlocked m db))) \<and>
   (handleInvoiceUpcoming cfg co env invoice db st = Inr (db'', st'') \<longrightarrow> db'' = db) \<and>
   costView (handleInvoicePaymentFailed invoice db) = costView db"
  using handleInvoiceCreated_store [of cfg co env invoice db st db' st']
    handleInvoicePaymentSucceeded_costs [of invoice db]
    handleInvoiceUpcoming_store [of cfg co env invoice db st db'' st'']
    handleInvoicePaymentFailed_costs [of invoice db]
  by (simp add: costView_def)

text \<open>
  An instance: for the renewal invoice of the pro user \<^verbatim>\<open>u4\<close> the created handler resets the
  usage and the upcoming handler does not; a paid renewal of the team, where \<^verbatim>\<open>u2\<close> is blocked,
  resets the usage of \<^verbatim>\<open>u1\<close>.
\<close>

theorem C3_reset_sources_witness:
  "handleInvoiceCreated exampleLimits exampleCollaborators exampleEnv
     (renewalInvoice ''sub_pro'' ''cus_4'') exampleStore exampleStripe =
     Inr (resetUsageForSubscription ''pro'' ''u4'' exampleStore,
          exampleStripe\<lparr>st_invoiceItems := [overageItem],
            st_idempotencyKeys := [(''cus_4:sub_pro:2026-11:overage'', overageItem)]\<rparr>) \<and>
   selectSubscriptionByStripeId (invoiceSubscriptionId (renewalInvoice ''sub_pro'' ''cus_4''))
     exampleStore = Some proSubscription \<and>
   handleInvoiceUpcoming exampleLimits exampleCollaborators exampleEnv
     (renewalInvoice ''sub_pro'' ''cus_4'') exampleStore exampleStripe =
     Inr (exampleStore,
          exampleStripe\<lparr>st_invoiceItems := [overageItem],
            st_idempotencyKeys := [(''cus_4:sub_pro:2026-11:overage'', overageItem)]\<rparr>) \<and>
   costView (handleInvoicePaymentFailed (overageInvoice ''sub_team'' ''cus_1'') exampleStore) =
     costView exampleStore \<and>
   costView (handleInvoicePaymentSucceeded (renewalInvoice ''sub_team'' ''cus_1'') exampleStore) ! 0 =
     (''u1'', Some ''0'', Some ''50'') \<and>
   costView exampleStore ! 0 = (''u1'', Some ''50'', None) \<and>
   selectSubscriptionByStripeId (invoiceSubscriptionId (renewalInvoice ''sub_team'' ''cus_1''))
     exampleStore = Some teamSubscription \<and>
   userWasBlocked ''u2'' exampleStore"
proof -
  let ?st = "exampleStripe\<lparr>st_invoiceItems := [overageItem],
            st_idempotencyKeys := [(''cus_4:sub_pro:2026-11:overage'', overageItem)]\<rparr>"
  note c3 = C3_reset_sources [of exampleLimits exampleCollaborators exampleEnv _ exampleStore
      exampleStripe]
  have sel': "selectSubscriptionByStripeId (invoiceSubscriptionId (renewalInvoice ''sub_pro'' ''cus_4''))
     exampleStore = Some proSubscription"
    by (simp add: renewalInvoice_fields example_select_pro)
  have failed: "costView (handleInvoicePaymentFailed (overageInvoice ''sub_team'' ''cus_1'') exampleStore) =
     costView exampleStore"
    using c3 [of "overageInvoice ''sub_team'' ''cus_1''" exampleStore exampleStripe exampleStore
        exampleStripe]
    by simp
  have paid: "costView (handleInvoicePaymentSucceeded (renewalInvoice ''sub_team'' ''cus_1'')
      exampleStore) ! 0 = (''u1'', Some ''0'', Some ''50'')"
    by (simp add: handleInvoicePaymentSucceeded_def renewalInvoice_fields example_select_team)
       (simp add: costView_def example_defs store_defs)
  have before: "costView exampleStore ! 0 = (''u1'', Some ''50'', None)"
    by (simp add: costView_def example_defs)
  have sel: "selectSubscriptionByStripeId (invoiceSubscriptionId (renewalInvoice ''sub_team'' ''cus_1''))
     exampleStore = Some teamSubscription"
    by (simp add: renewalInvoice_fields example_select_team)
  have b2: "userWasBlocked ''u2'' exampleStore"
    by (simp add: example_defs store_defs)
  from example_invoice_created sel' example_invoice_upcoming failed paid before sel b2
  show ?thesis by simp
qed

subsection \<open>Overage invoices for one billing period\<close>

lemma setInvoiceStatus_failing [simp]: "st_failing (setInvoiceStatus n s st) = st_failing st"
  by (simp add: setInvoiceStatus_def)

lemma map_of_update_type [simp]:
  "map_of (AList.update ''type'' v metadata) ''type'' = Some v"
  "map_of (AList.update ''type'' v metadata) ''billingPeriod'' = map_of metadata ''billingPeriod''"
  by (simp_all add: update_conv')

lemma createOverageBillingInvoice_fresh:
  assumes "\<not> js_le amount (Fin 0)" and "isFinite amount" and "st_failing st = []"
    and "map_of (st_customers st) customer = Some email"
    and "monthStart env (billingPeriodOf env metadata) = Some t"
    and "existingOverageInvoice (billingPeriodOf env metadata)
           (take 100 (filter (\<lambda>i. si_customer i = customer \<and> t \<le> si_created i)
                        (st_invoices st))) = None"
  shows "createOverageBillingInvoice env customer amount d metadata st =
           (billingSuccess amount (Some (length (st_invoices st))),
            stateAfterBilling env customer amount d metadata st)"
proof -
  have avail: "stripeAvailable opn st" for opn
    by (simp add: stripeAvailable_def assms(3))
  have avail': "stripeAvailable opn (setInvoiceStatus n s st')" if "st_failing st' = []" for opn n s st'
    using that by (simp add: stripeAvailable_def)
  show ?thesis
    using assms(1,4,5,6) isFinite_round_cents [OF assms(2)]
    by (simp add: createOverageBillingInvoice_def billingPeriodOf_def [symmetric] Let_def avail
          invoices_list_def customers_retrieve_def invoiceItems_create_def invoices_create_def
          invoices_finalizeInvoice_def invoices_pay_def stateAfterBilling_def
          newOverageInvoice_def stripeAvailable_def assms(3) billingSuccess_def)
qed

lemma stateAfterBilling_failing [simp]:
  "st_failing (stateAfterBilling env customer amount d metadata st) = st_failing st"
  by (simp add: stateAfterBilling_def Let_def)

lemma stateAfterBilling_customers [simp]:
  "st_customers (stateAfterBilling env customer amount d metadata st) = st_customers st"
  by (simp add: stateAfterBilling_def Let_def setInvoiceStatus_def)

lemma stateAfterBilling_head:
  assumes "st_statusOnCreate st \<noteq> ''void''"
  shows "\<exists>s rest.
     st_invoices (stateAfterBilling env customer amount d metadata st) =
       (newOverageInvoice env customer d metadata st)\<lparr>si_status := s\<rparr> # rest \<and> s \<noteq> ''void''"
proof -
  let ?v = "newOverageInvoice env customer d metadata st"
  have id: "si_id ?v = length (st_invoices st)"
    by (simp add: newOverageInvoice_def)
  have st: "si_status ?v = st_statusOnCreate st"
    by (simp add: newOverageInvoice_def)
  consider "st_statusOnCreate st = ''draft''" | "st_statusOnCreate st = ''open''"
    | "st_statusOnCreate st \<noteq> ''draft''" "st_statusOnCreate st \<noteq> ''open''"
    by blast
  then show ?thesis
  proof cases
    case 1
    then have "st_invoices (stateAfterBilling env customer amount d metadata st) =
        ?v\<lparr>si_status := ''paid''\<rparr> #
          map (\<lambda>v. if si_id v = length (st_invoices st) then v\<lparr>si_status := ''paid''\<rparr> else v)
            (map (\<lambda>v. if si_id v = length (st_invoices st) then v\<lparr>si_status := ''open''\<rparr> else v)
               (st_invoices st))"
      by (simp add: stateAfterBilling_def Let_def setInvoiceStatus_def id)
    then show ?thesis by auto
  next
    case 2
    then have "st_invoices (stateAfterBilling env customer amount d metadata st) =
        ?v\<lparr>si_status := ''paid''\<rparr> #
          map (\<lambda>v. if si_id v = length (st_invoices st) then v\<lparr>si_status := ''paid''\<rparr> else v)
            (st_invoices st)"
      by (simp add: stateAfterBilling_def Let_def setInvoiceStatus_def id)
    then show ?thesis by auto
  next
    case 3
    then have "st_invoices (stateAfterBilling env customer amount d metadata st) =
        ?v\<lparr>si_status := st_statusOnCreate st\<rparr> # st_invoices st"
      by (simp add: stateAfterBilling_def Let_def st [symmetric])
    with assms show ?thesis by auto
  qed
qed

lemma stateAfterBilling_invoices:
  assumes "\<forall>i \<in> set (st_invoices st). si_id i < length (st_invoices st)"
  shows "\<exists>s. st_invoices (stateAfterBilling env customer amount d metadata st) =
           (newOverageInvoice env customer d metadata st)\<lparr>si_status := s\<rparr> # st_invoices st"
proof -
  have keep: "map (\<lambda>v. if si_id v = length (st_invoices st) then v\<lparr>si_status := s\<rparr> else v)
      (st_invoices st) = st_invoices st" for s
    using assms by (intro map_idI) auto
  have keep2: "map ((\<lambda>v. if si_id v = length (st_invoices st) then v\<lparr>si_status := s\<rparr> else v) \<circ>
           (\<lambda>v. if si_id v = length (st_invoices st) then v\<lparr>si_status := s'\<rparr> else v))
      (st_invoices st) = st_invoices st" for s s'
    using assms by (intro map_idI) auto
  have id: "si_id (newOverageInvoice env customer d metadata st) = length (st_invoices st)"
    by (simp add: newOverageInvoice_def)
  have st: "(newOverageInvoice env customer d metadata st)
      \<lparr>si_status := st_statusOnCreate st\<rparr> = newOverageInvoice env customer d metadata st"
    by (simp add: newOverageInvoice_def)
  show ?thesis
    by (cases "st_statusOnCreate st = ''draft''"; cases "st_statusOnCreate st = ''open''")
       (auto simp: stateAfterBilling_def Let_def setInvoiceStatus_def id keep keep2
          intro: st [symmetric])
qed

lemma find_take_None:
  "find P (take (Suc n) xs) = None \<Longrightarrow> find P (take n xs) = None"
  by (metis Suc_n_not_le_n find_None_iff2 nat_le_linear set_take_subset_set_take subset_code(1))

text \<open>
  A second call that carries the same billing period in its metadata finds the invoice of
  the first call and creates nothing.
\<close>

lemma createOverageBillingInvoice_tagged_again:
  assumes tag: "map_of metadata ''billingPeriod'' = Some bp" "bp \<noteq> []"
    and start: "monthStart env bp = Some t" "t \<le> nowSeconds env"
    and start': "monthStart env' bp = Some t"
    and status: "st_statusOnCreate st \<noteq> ''void''"
    and up: "st_failing st = []"
    and positive: "\<not> js_le amount' (Fin 0)"
  shows "createOverageBillingInvoice env' customer amount' d' metadata
           (stateAfterBilling env customer amount d metadata st) =
         (billingSuccess (Fin 0) (Some (length (st_invoices st))),
          stateAfterBilling env customer amount d metadata st)"
proof -
  let ?S = "stateAfterBilling env customer amount d metadata st"
  let ?v = "newOverageInvoice env customer d metadata st"
  from stateAfterBilling_head [OF status, of env customer amount d metadata]
  obtain s rest where inv: "st_invoices ?S = ?v\<lparr>si_status := s\<rparr> # rest" and s: "s \<noteq> ''void''"
    by blast
  have period: "billingPeriodOf env' metadata = bp"
    using tag by (simp add: billingPeriodOf_def truthyText_def)
  have avail: "stripeAvailable opn ?S" for opn
    by (simp add: stripeAvailable_def up)
  have list: "invoices_list customer t ?S =
      Inr (?v\<lparr>si_status := s\<rparr> #
           take 99 (filter (\<lambda>i. si_customer i = customer \<and> t \<le> si_created i) rest))"
    using start(2) by (simp add: invoices_list_def avail inv newOverageInvoice_def)
  have found: "existingOverageInvoice bp
      (?v\<lparr>si_status := s\<rparr> #
         take 99 (filter (\<lambda>i. si_customer i = customer \<and> t \<le> si_created i) rest)) =
      Some (?v\<lparr>si_status := s\<rparr>)"
    using tag s by (simp add: existingOverageInvoice_def newOverageInvoice_def)
  have id: "si_id (?v\<lparr>si_status := s\<rparr>) = length (st_invoices st)"
    by (simp add: newOverageInvoice_def)
  show ?thesis
    using positive
    by (simp add: createOverageBillingInvoice_def billingPeriodOf_def [symmetric] period start'
          avail list found id)
qed

text \<open>
  A second call with metadata that names no billing period does not find the invoice of
  the first call, whose metadata then lacks the period as well, and bills again.
\<close>

lemma createOverageBillingInvoice_untagged_again:
  assumes untagged: "map_of metadata ''billingPeriod'' = None"
    and positive: "\<not> js_le amount (Fin 0)" and finite: "isFinite amount"
    and up: "st_failing st = []"
    and known: "map_of (st_customers st) customer = Some email"
    and start: "monthStart env (isoMonth env (nowSeconds env)) = Some t"
    and none: "existingOverageInvoice (isoMonth env (nowSeconds env))
           (take 100 (filter (\<lambda>i. si_customer i = customer \<and> t \<le> si_created i)
                        (st_invoices st))) = None"
    and ids: "\<forall>i \<in> set (st_invoices st). si_id i < length (st_invoices st)"
  shows "createOverageBillingInvoice env customer amount d metadata st =
           (billingSuccess amount (Some (length (st_invoices st))),
            stateAfterBilling env customer amount d metadata st) \<and>
         createOverageBillingInvoice env customer amount d metadata
           (stateAfterBilling env customer amount d metadata st) =
           (billingSuccess amount (Some (Suc (length (st_invoices st)))),
            stateAfterBilling env customer amount d metadata
              (stateAfterBilling env customer amount d metadata st))"
proof -
  let ?S = "stateAfterBilling env customer amount d metadata st"
  let ?bp = "isoMonth env (nowSeconds env)"
  let ?F = "\<lambda>i. si_customer i = customer \<and> t \<le> si_created i"
  have period: "billingPeriodOf env metadata = ?bp"
    by (simp add: billingPeriodOf_def truthyText_def untagged)
  have first: "createOverageBillingInvoice env customer amount d metadata st =
           (billingSuccess amount (Some (length (st_invoices st))), ?S)"
    using positive finite up known start none
    by (intro createOverageBillingInvoice_fresh) (simp_all add: period)
  from stateAfterBilling_invoices [OF ids, of env customer amount d metadata]
  obtain s where inv: "st_invoices ?S =
      (newOverageInvoice env customer d metadata st)\<lparr>si_status := s\<rparr> # st_invoices st"
    by blast
  have len: "length (st_invoices ?S) = Suc (length (st_invoices st))"
    by (simp add: inv)
  have bpn: "map_of (si_metadata (newOverageInvoice env customer d metadata st)) ''billingPeriod'' = None"
    by (simp add: newOverageInvoice_def untagged)
  have none99: "existingOverageInvoice ?bp (take 99 (filter ?F (st_invoices st))) = None"
    using none find_take_None [of _ 99 "filter ?F (st_invoices st)"]
    by (simp add: existingOverageInvoice_def)
  have none': "existingOverageInvoice ?bp (take 100 (filter ?F (st_invoices ?S))) = None"
    using none none99
    by (simp add: inv existingOverageInvoice_def bpn)
  have second: "createOverageBillingInvoice env customer amount d metadata ?S =
           (billingSuccess amount (Some (length (st_invoices ?S))),
            stateAfterBilling env customer amount d metadata ?S)"
    using positive finite up known start none'
    by (intro createOverageBillingInvoice_fresh) (simp_all add: period)
  from first second len show ?thesis by simp
qed

text \<open>
  Claim C4 at its failing input: two calls in succession for customer \<^verbatim>\<open>cus_1\<close> with an
  overage of 15 and the default metadata, which names no billing period. The second call
  does not find the invoice of the first, returns a charged amount of 15 again and leaves
  two paid overage invoices for the same customer and month.
\<close>

theorem C4_untagged_duplicate:
  "createOverageBillingInvoice exampleEnv ''cus_1'' (Fin 15) ''overage'' [] exampleStripe =
     (billingSuccess (Fin 15) (Some 0), stripeAfterOneCall) \<and>
   createOverageBillingInvoice exampleEnv ''cus_1'' (Fin 15) ''overage'' [] stripeAfterOneCall =
     (billingSuccess (Fin 15) (Some 1), stripeAfterTwoCalls) \<and>
   map si_id (st_invoices stripeAfterTwoCalls) = [1, 0] \<and>
   map si_status (st_invoices stripeAfterTwoCalls) = [''paid'', ''paid'']"
proof -
  have one: "createOverageBillingInvoice exampleEnv ''cus_1'' (Fin 15) ''overage'' [] exampleStripe =
     (billingSuccess (Fin 15) (Some 0), stripeAfterOneCall)"
    by (simp add: createOverageBillingInvoice_def stripe_defs Let_def exampleEnv_def
          exampleStripe_def c4_defs Math_round_numeral del: Math_round.simps)
  have two: "createOverageBillingInvoice exampleEnv ''cus_1'' (Fin 15) ''overage'' []
      stripeAfterOneCall = (billingSuccess (Fin 15) (Some 1), stripeAfterTwoCalls)"
    by (simp add: createOverageBillingInvoice_def stripe_defs Let_def exampleEnv_def
          exampleStripe_def c4_defs Math_round_numeral del: Math_round.simps)
  have "map si_id (st_invoices stripeAfterTwoCalls) = [1, 0]"
    and "map si_status (st_invoices stripeAfterTwoCalls) = [''paid'', ''paid'']"
    by (simp_all add: c4_defs)
  with one two show ?thesis by simp
qed

end
